theory Spec2Isabelle
  imports Complex_Main
begin

section \<open>Python values\<close>

text \<open>
  The rules engine of \<^verbatim>\<open>hecras_compliance/rules/engine.py\<close> is dynamically typed: a rule
  is whatever \<^verbatim>\<open>yaml.safe_load\<close> produced, a model attribute is whatever the parsers
  stored, and every access can raise. The embedding therefore works over one universe of
  Python values and makes each exception a value of a sum type.

  A float is its exact real value, or one of the three special values. Comparison of
  floats (and of floats with integers) is exact in Python, so the order on \<open>real\<close> is the
  order the code computes.
\<close>

datatype pyfloat = NegInf | Finite real | PosInf | NaN

text \<open>
  \<open>PDict\<close> is a \<^verbatim>\<open>dict\<close> with string keys, in insertion order, looked up with
  \<open>map_of\<close>. \<open>PObj\<close> is a class instance, given by the table of its attributes
  (dataclass fields and the values of its properties). \<open>PList\<close> stands for lists and
  tuples. Strings are byte strings: a character beyond ASCII is its UTF-8 bytes.
  \<open>POpaque\<close> is an object of another kind, as attribute lookup returns for the name of
  a method or of a module-level function: it is equal to itself only, is ordered with
  nothing, is true, and cannot be iterated.
\<close>

datatype pyval =
    PNone
  | PBool bool
  | PInt int
  | PFloat pyfloat
  | PStr string
  | PList "pyval list"
  | PDict "(string \<times> pyval) list"
  | PObj "(string \<times> pyval) list"
  | POpaque nat

datatype pyexc = KeyError | TypeError | AttributeError | FileNotFoundError | YAMLError

definition exc_bind :: "pyexc + 'a \<Rightarrow> ('a \<Rightarrow> pyexc + 'b) \<Rightarrow> pyexc + 'b" where
  "exc_bind m f = (case m of Inl e \<Rightarrow> Inl e | Inr x \<Rightarrow> f x)"

subsection \<open>Built-in functions\<close>

text \<open>
  What the engine takes from Python itself is a parameter \<open>py\<close> of every function that
  uses it, and no theorem assumes anything about it:
  \<^item> \<open>str_of\<close> is \<^verbatim>\<open>str\<close> (and the f-string formatting of a value): the text of a
    float is the shortest decimal that reads back as the same double, which a real number
    does not determine;
  \<^item> \<open>str_lower\<close> and \<open>str_strip\<close> are \<^verbatim>\<open>str.lower\<close> and \<^verbatim>\<open>str.strip\<close>, which
    follow the Unicode tables;
  \<^item> \<open>builtin_attr\<close> gives the attributes an object has besides the ones of its
    attribute table: methods, class attributes, \<^verbatim>\<open>__doc__\<close>, \<^verbatim>\<open>__dict__\<close> and the
    like, and every attribute of a string, a number or a container; \<open>None\<close> when the
    object has no attribute of that name.
\<close>

record builtins =
  str_of :: "pyval \<Rightarrow> string"
  str_lower :: "string \<Rightarrow> string"
  str_strip :: "string \<Rightarrow> string"
  builtin_attr :: "pyval \<Rightarrow> string \<Rightarrow> pyval option"

subsection \<open>Numbers, equality, order, truth\<close>

fun num_of :: "pyval \<Rightarrow> pyfloat option" where
  "num_of (PBool b) = Some (Finite (if b then 1 else 0))"
| "num_of (PInt i) = Some (Finite (of_int i))"
| "num_of (PFloat f) = Some f"
| "num_of _ = None"

text \<open>The real value of a number that has one (no infinity, no NaN).\<close>

fun real_of :: "pyval \<Rightarrow> real option" where
  "real_of v = (case num_of v of Some (Finite r) \<Rightarrow> Some r | _ \<Rightarrow> None)"

fun float_eq :: "pyfloat \<Rightarrow> pyfloat \<Rightarrow> bool" where
  "float_eq NaN _ = False"
| "float_eq _ NaN = False"
| "float_eq a b = (a = b)"

fun float_le :: "pyfloat \<Rightarrow> pyfloat \<Rightarrow> bool" where
  "float_le NaN _ = False"
| "float_le _ NaN = False"
| "float_le NegInf _ = True"
| "float_le _ PosInf = True"
| "float_le (Finite a) (Finite b) = (a \<le> b)"
| "float_le PosInf _ = False"
| "float_le _ NegInf = False"

text \<open>
  Python's \<^verbatim>\<open>==\<close>. Numbers compare by value across \<^verbatim>\<open>bool\<close>, \<^verbatim>\<open>int\<close> and
  \<^verbatim>\<open>float\<close>; lists element by element; dicts by key (keys are distinct in a Python
  dict); instances field by field. It never raises on these values.
\<close>

fun py_eq :: "pyval \<Rightarrow> pyval \<Rightarrow> bool"
  and py_eq_list :: "pyval list \<Rightarrow> pyval list \<Rightarrow> bool"
  and py_eq_items :: "(string \<times> pyval) list \<Rightarrow> (string \<times> pyval) list \<Rightarrow> bool"
  and py_eq_fields :: "(string \<times> pyval) list \<Rightarrow> (string \<times> pyval) list \<Rightarrow> bool"
where
  "py_eq PNone b = (b = PNone)"
| "py_eq (PBool p) b =
     (case num_of b of Some y \<Rightarrow> float_eq (Finite (if p then 1 else 0)) y | None \<Rightarrow> False)"
| "py_eq (PInt i) b =
     (case num_of b of Some y \<Rightarrow> float_eq (Finite (of_int i)) y | None \<Rightarrow> False)"
| "py_eq (PFloat f) b =
     (case num_of b of Some y \<Rightarrow> float_eq f y | None \<Rightarrow> False)"
| "py_eq (PStr s) b = (b = PStr s)"
| "py_eq (PList xs) b = (case b of PList ys \<Rightarrow> py_eq_list xs ys | _ \<Rightarrow> False)"
| "py_eq (PDict a) b =
     (case b of PDict c \<Rightarrow> length a = length c \<and> py_eq_items a c | _ \<Rightarrow> False)"
| "py_eq (PObj a) b = (case b of PObj c \<Rightarrow> py_eq_fields a c | _ \<Rightarrow> False)"
| "py_eq (POpaque n) b = (b = POpaque n)"
| "py_eq_list [] ys = (ys = [])"
| "py_eq_list (x # xs) ys =
     (case ys of [] \<Rightarrow> False | y # ys' \<Rightarrow> py_eq x y \<and> py_eq_list xs ys')"
| "py_eq_items [] c = True"
| "py_eq_items (kv # a) c =
     ((case map_of c (fst kv) of None \<Rightarrow> False | Some w \<Rightarrow> py_eq (snd kv) w)
      \<and> py_eq_items a c)"
| "py_eq_fields [] c = (c = [])"
| "py_eq_fields (kv # a) c =
     (case c of [] \<Rightarrow> False
      | kw # c' \<Rightarrow> fst kv = fst kw \<and> py_eq (snd kv) (snd kw) \<and> py_eq_fields a c')"

text \<open>Lexicographic order of strings by code point (byte order, on UTF-8).\<close>

fun str_le :: "string \<Rightarrow> string \<Rightarrow> bool" where
  "str_le [] _ = True"
| "str_le (x # xs) [] = False"
| "str_le (x # xs) (y # ys) =
     (if x = y then str_le xs ys else (of_char x :: nat) < of_char y)"

text \<open>
  Python's \<^verbatim>\<open>a <= b\<close>: defined between numbers, between strings and between lists
  (decided by the first pair of unequal elements, else by length); \<^verbatim>\<open>TypeError\<close>
  for every other pair of values.
\<close>

fun py_le :: "pyval \<Rightarrow> pyval \<Rightarrow> pyexc + bool"
  and py_le_list :: "pyval list \<Rightarrow> pyval list \<Rightarrow> pyexc + bool"
where
  "py_le (PStr s) b = (case b of PStr t \<Rightarrow> Inr (str_le s t) | _ \<Rightarrow> Inl TypeError)"
| "py_le (PList xs) b = (case b of PList ys \<Rightarrow> py_le_list xs ys | _ \<Rightarrow> Inl TypeError)"
| "py_le PNone b = Inl TypeError"
| "py_le (PDict a) b = Inl TypeError"
| "py_le (PObj a) b = Inl TypeError"
| "py_le (POpaque n) b = Inl TypeError"
| "py_le (PBool p) b =
     (case num_of b of Some y \<Rightarrow> Inr (float_le (Finite (if p then 1 else 0)) y)
      | None \<Rightarrow> Inl TypeError)"
| "py_le (PInt i) b =
     (case num_of b of Some y \<Rightarrow> Inr (float_le (Finite (of_int i)) y)
      | None \<Rightarrow> Inl TypeError)"
| "py_le (PFloat f) b =
     (case num_of b of Some y \<Rightarrow> Inr (float_le f y) | None \<Rightarrow> Inl TypeError)"
| "py_le_list [] ys = Inr True"
| "py_le_list (x # xs) ys =
     (case ys of [] \<Rightarrow> Inr False
      | y # ys' \<Rightarrow> if py_eq x y then py_le_list xs ys' else py_le x y)"

text \<open>Truth value of a Python value, as \<^verbatim>\<open>if x:\<close> and \<^verbatim>\<open>x or y\<close> take it.\<close>

fun py_truthy :: "pyval \<Rightarrow> bool" where
  "py_truthy PNone = False"
| "py_truthy (PBool b) = b"
| "py_truthy (PInt i) = (i \<noteq> 0)"
| "py_truthy (PFloat f) = (f \<noteq> Finite 0)"
| "py_truthy (PStr s) = (s \<noteq> [])"
| "py_truthy (PList xs) = (xs \<noteq> [])"
| "py_truthy (PDict d) = (d \<noteq> [])"
| "py_truthy (PObj a) = True"
| "py_truthy (POpaque n) = True"

subsection \<open>Dictionaries and attributes\<close>

text \<open>\<^verbatim>\<open>d.get(k, default)\<close> and \<^verbatim>\<open>d[k]\<close> on a dict.\<close>

definition dict_get :: "(string \<times> pyval) list \<Rightarrow> string \<Rightarrow> pyval \<Rightarrow> pyval" where
  "dict_get d k dflt = (case map_of d k of None \<Rightarrow> dflt | Some v \<Rightarrow> v)"

definition dict_item :: "(string \<times> pyval) list \<Rightarrow> string \<Rightarrow> pyexc + pyval" where
  "dict_item d k = (case map_of d k of None \<Rightarrow> Inl KeyError | Some v \<Rightarrow> Inr v)"

text \<open>
  The same on any value: only a dict has \<^verbatim>\<open>.get\<close> (\<^verbatim>\<open>AttributeError\<close> otherwise),
  and subscripting anything else with a string is a \<^verbatim>\<open>TypeError\<close>.
\<close>

fun py_get :: "pyval \<Rightarrow> string \<Rightarrow> pyval \<Rightarrow> pyexc + pyval" where
  "py_get (PDict d) k dflt = Inr (dict_get d k dflt)"
| "py_get _ k dflt = Inl AttributeError"

fun py_item :: "pyval \<Rightarrow> string \<Rightarrow> pyexc + pyval" where
  "py_item (PDict d) k = dict_item d k"
| "py_item _ k = Inl TypeError"

text \<open>
  Attribute lookup: the attribute table of an instance first (its fields and
  properties), then the built-in attributes.
\<close>

fun find_attr :: "builtins \<Rightarrow> pyval \<Rightarrow> string \<Rightarrow> pyval option" where
  "find_attr py (PObj attrs) nm =
     (case map_of attrs nm of Some v \<Rightarrow> Some v | None \<Rightarrow> builtin_attr py (PObj attrs) nm)"
| "find_attr py obj nm = builtin_attr py obj nm"

text \<open>
  \<^verbatim>\<open>getattr(obj, name, None)\<close>: the attribute, or \<^verbatim>\<open>None\<close> when the object has
  none of that name.
\<close>

definition py_getattr :: "builtins \<Rightarrow> pyval \<Rightarrow> string \<Rightarrow> pyval" where
  "py_getattr py obj nm = (case find_attr py obj nm of Some v \<Rightarrow> v | None \<Rightarrow> PNone)"

text \<open>\<^verbatim>\<open>obj.name\<close>: raises \<^verbatim>\<open>AttributeError\<close> when the attribute is missing.\<close>

definition py_attr :: "builtins \<Rightarrow> pyval \<Rightarrow> string \<Rightarrow> pyexc + pyval" where
  "py_attr py obj nm =
     (case find_attr py obj nm of Some v \<Rightarrow> Inr v | None \<Rightarrow> Inl AttributeError)"

section \<open>Results\<close>

text \<open>
  \<^verbatim>\<open>RuleResult\<close>: the dataclass declares every field \<^verbatim>\<open>str\<close> but stores what it is
  given, so a field holds any Python value.
\<close>

record RuleResult =
  rule_id :: pyval
  rule_name :: pyval
  status :: pyval
  severity :: pyval
  actual_value :: pyval
  expected_value :: pyval
  citation :: pyval
  citation_url :: pyval
  message :: pyval
  location :: pyval

section \<open>Generic checks\<close>

text \<open>
  \<^verbatim>\<open>ComplianceEngine._check_range\<close>. The chained comparison evaluates
  \<^verbatim>\<open>val <= hi\<close> only when \<^verbatim>\<open>lo <= val\<close> holds, and \<^verbatim>\<open>rule["severity"]\<close> is read
  for the status only when the comparison failed.
\<close>

definition en_dash :: string where
  "en_dash = [char_of (0xE2 :: nat), char_of (0x80 :: nat), char_of (0x93 :: nat)]"

definition check_range ::
  "builtins \<Rightarrow> pyval \<Rightarrow> pyval \<Rightarrow> string \<Rightarrow> pyexc + RuleResult" where
  "check_range py rule val loc =
     exc_bind (py_get rule ''parameters'' (PDict [])) (\<lambda>params.
     exc_bind (py_get params ''min'' (PFloat NegInf)) (\<lambda>lo.
     exc_bind (py_get params ''max'' (PFloat PosInf)) (\<lambda>hi.
     exc_bind (exc_bind (py_le lo val) (\<lambda>b. if b then py_le val hi else Inr False)) (\<lambda>passed.
     exc_bind (if passed then Inr (PStr ''PASS'')
               else exc_bind (py_item rule ''severity'') (\<lambda>sev.
                      Inr (if py_eq sev (PStr ''warning'') then PStr ''WARNING''
                           else PStr ''FAIL''))) (\<lambda>st.
     let expected = str_of py lo @ '' '' @ en_dash @ '' '' @ str_of py hi;
         msg = (if passed
                then ''Value '' @ str_of py val @ '' is within range ['' @ str_of py lo @ '', ''
                       @ str_of py hi @ ''].''
                else ''Value '' @ str_of py val @ '' is outside range ['' @ str_of py lo @ '', ''
                       @ str_of py hi @ ''].'')
     in
     exc_bind (py_item rule ''id'') (\<lambda>rid.
     exc_bind (py_item rule ''name'') (\<lambda>rname.
     exc_bind (py_item rule ''severity'') (\<lambda>sev.
     exc_bind (py_item rule ''citation'') (\<lambda>cit.
     exc_bind (py_get rule ''citation_url'' (PStr '''')) (\<lambda>url.
     Inr \<lparr> rule_id = rid, rule_name = rname, status = st, severity = sev,
           actual_value = PStr (str_of py val), expected_value = PStr expected,
           citation = cit, citation_url = url, message = PStr msg,
           location = PStr loc \<rparr>))))))))))"

text \<open>
  \<^verbatim>\<open>ComplianceEngine._skipped\<close>, \<^verbatim>\<open>_check_exact\<close> and \<^verbatim>\<open>_check_exists\<close>. Each
  reads \<^verbatim>\<open>rule["id"]\<close>, \<^verbatim>\<open>rule["name"]\<close>, \<^verbatim>\<open>rule["severity"]\<close> and
  \<^verbatim>\<open>rule["citation"]\<close>, in that order, and raises \<^verbatim>\<open>KeyError\<close> at the first one
  missing.
\<close>

definition skipped :: "pyval \<Rightarrow> string \<Rightarrow> string \<Rightarrow> pyexc + RuleResult" where
  "skipped rule reason loc =
     exc_bind (py_item rule ''id'') (\<lambda>rid.
     exc_bind (py_item rule ''name'') (\<lambda>rname.
     exc_bind (py_item rule ''severity'') (\<lambda>sev.
     exc_bind (py_item rule ''citation'') (\<lambda>cit.
     exc_bind (py_get rule ''citation_url'' (PStr '''')) (\<lambda>url.
     Inr \<lparr> rule_id = rid, rule_name = rname, status = PStr ''SKIPPED'', severity = sev,
           actual_value = PStr '''', expected_value = PStr '''',
           citation = cit, citation_url = url, message = PStr reason,
           location = PStr loc \<rparr>)))))"

definition check_exact ::
  "builtins \<Rightarrow> pyval \<Rightarrow> pyval \<Rightarrow> string \<Rightarrow> pyexc + RuleResult" where
  "check_exact py rule val loc =
     exc_bind (py_get rule ''parameters'' (PDict [])) (\<lambda>params.
     exc_bind (py_get params ''value'' PNone) (\<lambda>expected.
     let passed = py_eq val expected in
     exc_bind (if passed then Inr (PStr ''PASS'')
               else exc_bind (py_item rule ''severity'') (\<lambda>sev.
                      Inr (if py_eq sev (PStr ''warning'') then PStr ''WARNING''
                           else PStr ''FAIL''))) (\<lambda>st.
     exc_bind (py_item rule ''id'') (\<lambda>rid.
     exc_bind (py_item rule ''name'') (\<lambda>rname.
     exc_bind (py_item rule ''severity'') (\<lambda>sev.
     exc_bind (py_item rule ''citation'') (\<lambda>cit.
     exc_bind (py_get rule ''citation_url'' (PStr '''')) (\<lambda>url.
     Inr \<lparr> rule_id = rid, rule_name = rname, status = st, severity = sev,
           actual_value = PStr (str_of py val), expected_value = PStr (str_of py expected),
           citation = cit, citation_url = url,
           message = PStr (''Value '' @ str_of py val @ '' ''
                           @ (if passed then ''matches'' else ''does not match'')
                           @ '' expected '' @ str_of py expected @ ''.''),
           location = PStr loc \<rparr>))))))))"

definition check_exists ::
  "builtins \<Rightarrow> pyval \<Rightarrow> pyval \<Rightarrow> string \<Rightarrow> pyexc + RuleResult" where
  "check_exists py rule val loc =
     exc_bind (py_item rule ''id'') (\<lambda>rid.
     exc_bind (py_item rule ''name'') (\<lambda>rname.
     exc_bind (py_item rule ''severity'') (\<lambda>sev.
     exc_bind (py_item rule ''citation'') (\<lambda>cit.
     exc_bind (py_get rule ''citation_url'' (PStr '''')) (\<lambda>url.
     Inr \<lparr> rule_id = rid, rule_name = rname, status = PStr ''PASS'', severity = sev,
           actual_value = PStr (str_of py val), expected_value = PStr ''present'',
           citation = cit, citation_url = url, message = PStr ''Value is present.'',
           location = PStr loc \<rparr>)))))"

section \<open>Strings\<close>

text \<open>
  The string operations the engine and its handlers call, other than \<^verbatim>\<open>lower\<close> and
  \<^verbatim>\<open>strip\<close>, which are parameters.

  \<open>ascii_lower\<close> and \<open>ascii_strip\<close> are \<^verbatim>\<open>str.lower\<close> and \<^verbatim>\<open>str.strip\<close> on strings
  of ASCII characters (the letters \<^verbatim>\<open>A\<close> to \<^verbatim>\<open>Z\<close>; the characters 9 to 13 and 28 to
  32, for which \<^verbatim>\<open>str.isspace\<close> holds). No function of the engine calls them: they
  only instantiate the parameters in the worked examples, whose strings are all ASCII.
\<close>

definition lower_char :: "char \<Rightarrow> char" where
  "lower_char c =
     (let n = (of_char c :: nat) in if 65 \<le> n \<and> n \<le> 90 then char_of (n + 32) else c)"

definition ascii_lower :: "string \<Rightarrow> string" where
  "ascii_lower s = map lower_char s"

definition is_space :: "char \<Rightarrow> bool" where
  "is_space c = (let n = (of_char c :: nat) in (9 \<le> n \<and> n \<le> 13) \<or> (28 \<le> n \<and> n \<le> 32))"

definition ascii_strip :: "string \<Rightarrow> string" where
  "ascii_strip s = rev (dropWhile is_space (rev (dropWhile is_space s)))"

text \<open>\<^verbatim>\<open>s.lstrip(".")\<close> and \<^verbatim>\<open>s.rstrip(".")\<close>, for any one character.\<close>

definition py_lstrip_char :: "char \<Rightarrow> string \<Rightarrow> string" where
  "py_lstrip_char c s = dropWhile (\<lambda>x. x = c) s"

definition py_rstrip_char :: "char \<Rightarrow> string \<Rightarrow> string" where
  "py_rstrip_char c s = rev (dropWhile (\<lambda>x. x = c) (rev s))"

text \<open>\<^verbatim>\<open>sub in s\<close> for strings.\<close>

fun py_contains :: "string \<Rightarrow> string \<Rightarrow> bool" where
  "py_contains sub [] = (sub = [])"
| "py_contains sub (c # cs) = (take (length sub) (c # cs) = sub \<or> py_contains sub cs)"

text \<open>
  \<^verbatim>\<open>s.partition(sep)\<close> for a non-empty separator: split at the first occurrence, or
  \<^verbatim>\<open>(s, "", "")\<close> when there is none.
\<close>

fun py_partition :: "string \<Rightarrow> string \<Rightarrow> string \<times> string \<times> string" where
  "py_partition sep [] = ([], [], [])"
| "py_partition sep (c # cs) =
     (if take (length sep) (c # cs) = sep then ([], sep, drop (length sep) (c # cs))
      else (case py_partition sep cs of
              (b, m, a) \<Rightarrow> if m = [] then (c # cs, [], []) else (c # b, m, a)))"

text \<open>\<^verbatim>\<open>s.split(sep)\<close> for a one-character separator: never empty, \<^verbatim>\<open>[""]\<close> for \<^verbatim>\<open>""\<close>.\<close>

fun py_split :: "char \<Rightarrow> string \<Rightarrow> string list" where
  "py_split sep [] = [[]]"
| "py_split sep (c # cs) =
     (if c = sep then [] # py_split sep cs
      else (case py_split sep cs of p # ps \<Rightarrow> (c # p) # ps | [] \<Rightarrow> [[c]]))"

text \<open>
  Iterating a value: the elements of a list, the characters of a string, the keys of a
  dict; \<open>None\<close> when the value has no \<^verbatim>\<open>__iter__\<close> (numbers, \<^verbatim>\<open>None\<close>, dataclass
  instances, bound methods).
\<close>

fun py_iter :: "pyval \<Rightarrow> pyval list option" where
  "py_iter (PList xs) = Some xs"
| "py_iter (PStr s) = Some (map (\<lambda>c. PStr [c]) s)"
| "py_iter (PDict d) = Some (map PStr (remdups (map fst d)))"
| "py_iter _ = None"

text \<open>\<^verbatim>\<open>len(x)\<close>.\<close>

fun py_len :: "pyval \<Rightarrow> pyexc + nat" where
  "py_len (PList xs) = Inr (length xs)"
| "py_len (PStr s) = Inr (length s)"
| "py_len (PDict d) = Inr (length (remdups (map fst d)))"
| "py_len _ = Inl TypeError"

text \<open>
  \<^verbatim>\<open>sep.join(x)\<close>: \<^verbatim>\<open>TypeError\<close> when \<^verbatim>\<open>x\<close> cannot be iterated or holds an element
  that is not a string.
\<close>

fun join_strs :: "string \<Rightarrow> pyval list \<Rightarrow> pyexc + string" where
  "join_strs sep [] = Inr []"
| "join_strs sep [v] = (case v of PStr s \<Rightarrow> Inr s | _ \<Rightarrow> Inl TypeError)"
| "join_strs sep (v # w # vs) =
     (case v of PStr s \<Rightarrow> exc_bind (join_strs sep (w # vs)) (\<lambda>r. Inr (s @ sep @ r))
      | _ \<Rightarrow> Inl TypeError)"

definition py_join :: "string \<Rightarrow> pyval \<Rightarrow> pyexc + string" where
  "py_join sep x = (case py_iter x of None \<Rightarrow> Inl TypeError | Some vs \<Rightarrow> join_strs sep vs)"

section \<open>Path resolution\<close>

text \<open>
  \<^verbatim>\<open>ModelData\<close>: four sub-models, each \<^verbatim>\<open>None\<close> when not loaded. \<open>ModelData_obj\<close>
  is the instance as \<^verbatim>\<open>getattr\<close> sees it.
\<close>

record ModelData =
  geometry :: pyval
  plan :: pyval
  flow :: pyval
  project :: pyval

definition ModelData_obj :: "ModelData \<Rightarrow> pyval" where
  "ModelData_obj m =
     PObj [(''geometry'', geometry m), (''plan'', plan m), (''flow'', flow m),
           (''project'', project m)]"

text \<open>\<^verbatim>\<open>_getattr_path\<close>: the loop over \<^verbatim>\<open>path.split(".")\<close>, then the function.\<close>

fun walk_attrs :: "builtins \<Rightarrow> pyval \<Rightarrow> string list \<Rightarrow> pyval" where
  "walk_attrs py obj [] = obj"
| "walk_attrs py obj (part # parts) =
     (if obj = PNone then PNone else walk_attrs py (py_getattr py obj part) parts)"

definition getattr_path :: "builtins \<Rightarrow> pyval \<Rightarrow> string \<Rightarrow> pyval" where
  "getattr_path py obj path = walk_attrs py obj (py_split CHR ''.'' path)"

text \<open>The body of the loop of \<^verbatim>\<open>_resolve_values\<close> over the items of the container.\<close>

definition resolve_item ::
  "builtins \<Rightarrow> string \<Rightarrow> pyval \<Rightarrow> (pyval \<times> string) list" where
  "resolve_item py field_path item =
     (let station = py_getattr py item ''river_station'';
          loc = (if station \<noteq> PNone then ''RS '' @ str_of py station else '''')
      in if field_path = ''manning_n_overbank''
         then (let left = py_getattr py item ''manning_n_left'';
                   right = py_getattr py item ''manning_n_right''
               in (if left \<noteq> PNone
                   then [(left, if loc \<noteq> [] then loc @ '' LOB'' else ''LOB'')] else [])
                  @ (if right \<noteq> PNone
                     then [(right, if loc \<noteq> [] then loc @ '' ROB'' else ''ROB'')] else []))
         else [(getattr_path py item field_path, loc)])"

text \<open>\<^verbatim>\<open>_resolve_values\<close> on a string path.\<close>

definition resolve_values ::
  "builtins \<Rightarrow> ModelData \<Rightarrow> string \<Rightarrow> (pyval \<times> string) list" where
  "resolve_values py model applies_to =
     (if py_contains ''[]'' applies_to
      then (case py_partition ''[]'' applies_to of
              (container_path, sep, field_path) \<Rightarrow>
                (case py_iter (getattr_path py (ModelData_obj model)
                                 (py_rstrip_char CHR ''.'' container_path)) of
                   None \<Rightarrow> []
                 | Some items \<Rightarrow>
                     concat (map (resolve_item py (py_lstrip_char CHR ''.'' field_path))
                               items)))
      else [(getattr_path py (ModelData_obj model) applies_to, '''')])"

text \<open>
  \<^verbatim>\<open>_resolve_values\<close> on whatever \<^verbatim>\<open>rule.get("applies_to", "")\<close> returned. On a list
  or dict the membership test succeeds and the string method that follows raises
  \<^verbatim>\<open>AttributeError\<close>; on any other value that is not a string the membership test
  itself raises \<^verbatim>\<open>TypeError\<close>.
\<close>

fun resolve_values_of ::
  "builtins \<Rightarrow> ModelData \<Rightarrow> pyval \<Rightarrow> pyexc + (pyval \<times> string) list" where
  "resolve_values_of py model (PStr s) = Inr (resolve_values py model s)"
| "resolve_values_of py model (PList xs) = Inl AttributeError"
| "resolve_values_of py model (PDict d) = Inl AttributeError"
| "resolve_values_of py model _ = Inl TypeError"

section \<open>Custom handlers\<close>

text \<open>
  \<^verbatim>\<open>checks/profiles.py\<close>, \<^verbatim>\<open>_make_result\<close>: the result dict of a handler. The dict
  literals of \<^verbatim>\<open>checks/boundaries.py\<close> have the same keys in the same order and are
  built with it too.
\<close>

definition make_result ::
  "pyval \<Rightarrow> string \<Rightarrow> string \<Rightarrow> string \<Rightarrow> string \<Rightarrow> pyexc + (string \<times> pyval) list" where
  "make_result rule st actual expected msg =
     exc_bind (py_item rule ''id'') (\<lambda>rid.
     exc_bind (py_item rule ''name'') (\<lambda>rname.
     exc_bind (py_item rule ''severity'') (\<lambda>sev.
     exc_bind (py_item rule ''citation'') (\<lambda>cit.
     Inr [(''rule_id'', rid), (''rule_name'', rname), (''status'', PStr st),
          (''severity'', sev), (''actual_value'', PStr actual),
          (''expected_value'', PStr expected), (''citation'', cit),
          (''message'', PStr msg)]))))"

text \<open>\<^verbatim>\<open>[n.lower() for n in names]\<close>.\<close>

fun lower_each :: "builtins \<Rightarrow> pyval list \<Rightarrow> pyexc + string list" where
  "lower_each py [] = Inr []"
| "lower_each py (v # vs) =
     (case v of PStr s \<Rightarrow> exc_bind (lower_each py vs) (\<lambda>r. Inr (str_lower py s # r))
      | _ \<Rightarrow> Inl AttributeError)"

definition lower_all :: "builtins \<Rightarrow> pyval \<Rightarrow> pyexc + string list" where
  "lower_all py names =
     (case py_iter names of None \<Rightarrow> Inl TypeError | Some vs \<Rightarrow> lower_each py vs)"

text \<open>
  \<^verbatim>\<open>any(pn.strip().lower() in accepted for pn in profile_names)\<close>: stops at the first
  match, so a later name that is not a string is never touched.
\<close>

fun any_match :: "builtins \<Rightarrow> string list \<Rightarrow> pyval list \<Rightarrow> pyexc + bool" where
  "any_match py accepted [] = Inr False"
| "any_match py accepted (pn # pns) =
     (case pn of
        PStr s \<Rightarrow> if str_lower py (str_strip py s) \<in> set accepted then Inr True
                  else any_match py accepted pns
      | _ \<Rightarrow> Inl AttributeError)"

text \<open>\<^verbatim>\<open>check_profile_exists\<close> (also registered as \<^verbatim>\<open>check_100yr_profile_exists\<close>).\<close>

definition check_profile_exists ::
  "builtins \<Rightarrow> pyval \<Rightarrow> ModelData \<Rightarrow> pyexc + (string \<times> pyval) list list" where
  "check_profile_exists py rule model_data =
     (if flow model_data = PNone
      then exc_bind (make_result rule ''SKIPPED'' ''no flow data'' ''''
                       ''No flow file loaded; cannot check profile names.'')
             (\<lambda>r. Inr [r])
      else
        exc_bind (py_item rule ''parameters'') (\<lambda>params.
        exc_bind (py_get params ''accepted_names'' (PList [])) (\<lambda>names.
        exc_bind (lower_all py names) (\<lambda>accepted.
        exc_bind (py_attr py (flow model_data) ''profile_names'') (\<lambda>profile_names.
        if \<not> py_truthy profile_names
        then
          exc_bind (py_item rule ''parameters'') (\<lambda>params.
          exc_bind (py_get params ''accepted_names'' (PList [])) (\<lambda>names.
          exc_bind (py_join '', '' names) (\<lambda>expected.
          exc_bind (make_result rule ''SKIPPED'' ''no profiles'' expected
                      ''Flow file contains no profiles.'')
            (\<lambda>r. Inr [r]))))
        else
          exc_bind (case py_iter profile_names of None \<Rightarrow> Inl TypeError
                    | Some pns \<Rightarrow> any_match py accepted pns) (\<lambda>matched.
          exc_bind (py_join '', '' profile_names) (\<lambda>actual.
          exc_bind (py_item rule ''parameters'') (\<lambda>params.
          exc_bind (py_item params ''accepted_names'') (\<lambda>names.
          exc_bind (py_join '', '' names) (\<lambda>expected.
          exc_bind (py_join '', '' profile_names) (\<lambda>present.
          if matched
          then exc_bind (make_result rule ''PASS'' actual (''one of: '' @ expected)
                           (''Required profile found in: '' @ present @ ''.''))
                 (\<lambda>r. Inr [r])
          else exc_bind (make_result rule ''FAIL'' actual (''one of: '' @ expected)
                           (''No profile matching the required event was found. ''
                            @ ''Profiles present: '' @ present @ ''.''))
                 (\<lambda>r. Inr [r]))))))))))))"

text \<open>\<^verbatim>\<open>check_boundary_conditions_defined\<close>.\<close>

definition check_boundary_conditions_defined ::
  "builtins \<Rightarrow> pyval \<Rightarrow> ModelData \<Rightarrow> pyexc + (string \<times> pyval) list list" where
  "check_boundary_conditions_defined py rule model_data =
     (if flow model_data = PNone
      then exc_bind (make_result rule ''SKIPPED'' ''no flow data''
                       ''boundary conditions defined''
                       ''No flow file loaded; cannot check boundary conditions.'')
             (\<lambda>r. Inr [r])
      else
        exc_bind (py_attr py (flow model_data) ''is_steady'') (\<lambda>is_steady.
        exc_bind (if py_truthy is_steady
                  then exc_bind (py_attr py (flow model_data) ''steady_boundaries'') py_len
                  else exc_bind (py_attr py (flow model_data) ''unsteady_boundaries'') py_len)
          (\<lambda>count.
        let bc_type = (if py_truthy is_steady then ''steady'' else ''unsteady'') in
        if count > 0
        then exc_bind (make_result rule ''PASS''
                         (str_of py (PInt (int count)) @ '' '' @ bc_type @ '' boundary conditions'')
                         ''at least 1 boundary condition''
                         (str_of py (PInt (int count)) @ '' '' @ bc_type
                          @ '' boundary condition(s) defined.''))
               (\<lambda>r. Inr [r])
        else exc_bind (make_result rule ''FAIL''
                         (''0 '' @ bc_type @ '' boundary conditions'')
                         ''at least 1 boundary condition''
                         (''No '' @ bc_type @ '' boundary conditions found. Every reach endpoint ''
                          @ ''must have an assigned boundary condition.''))
               (\<lambda>r. Inr [r]))))"

text \<open>
  \<^verbatim>\<open>flag_for_manual_review\<close>: the note is stripped when it is a string, and the
  severity is the literal \<^verbatim>\<open>"info"\<close>, not the rule's.
\<close>

definition flag_for_manual_review ::
  "builtins \<Rightarrow> pyval \<Rightarrow> ModelData \<Rightarrow> pyexc + (string \<times> pyval) list list" where
  "flag_for_manual_review py rule model_data =
     exc_bind (py_item rule ''parameters'') (\<lambda>params.
     exc_bind (py_get params ''review_note'' (PStr ''Manual review required.'')) (\<lambda>note0.
     let note = (case note0 of PStr s \<Rightarrow> PStr (str_strip py s) | _ \<Rightarrow> note0) in
     exc_bind (py_item rule ''id'') (\<lambda>rid.
     exc_bind (py_item rule ''name'') (\<lambda>rname.
     exc_bind (py_item rule ''citation'') (\<lambda>cit.
     Inr [[(''rule_id'', rid), (''rule_name'', rname), (''status'', PStr ''PASS''),
           (''severity'', PStr ''info''), (''actual_value'', PStr ''flagged for review''),
           (''expected_value'', PStr ''manual verification''), (''citation'', cit),
           (''message'', note)]])))))"

text \<open>\<^verbatim>\<open>HANDLER_REGISTRY\<close> of \<^verbatim>\<open>checks/__init__.py\<close>.\<close>

type_synonym handler =
  "builtins \<Rightarrow> pyval \<Rightarrow> ModelData \<Rightarrow> pyexc + (string \<times> pyval) list list"

definition HANDLER_REGISTRY :: "(string \<times> handler) list" where
  "HANDLER_REGISTRY =
     [(''check_profile_exists'', check_profile_exists),
      (''check_100yr_profile_exists'', check_profile_exists),
      (''check_boundary_conditions_defined'', check_boundary_conditions_defined),
      (''flag_for_manual_review'', flag_for_manual_review)]"

text \<open>
  \<^verbatim>\<open>HANDLER_REGISTRY.get(handler_name)\<close>: a list, dict or dataclass instance cannot be
  hashed, so the lookup raises \<^verbatim>\<open>TypeError\<close>; any other value that is not a registered
  name yields \<^verbatim>\<open>None\<close>.
\<close>

fun hashable :: "pyval \<Rightarrow> bool" where
  "hashable (PList xs) = False"
| "hashable (PDict d) = False"
| "hashable (PObj a) = False"
| "hashable _ = True"

definition registry_get :: "pyval \<Rightarrow> pyexc + handler option" where
  "registry_get handler_name =
     (if \<not> hashable handler_name then Inl TypeError
      else case handler_name of PStr s \<Rightarrow> Inr (map_of HANDLER_REGISTRY s) | _ \<Rightarrow> Inr None)"

section \<open>The engine\<close>

text \<open>The conversion of one handler dict to a \<^verbatim>\<open>RuleResult\<close> in \<^verbatim>\<open>_run_custom\<close>.\<close>

definition to_result :: "pyval \<Rightarrow> (string \<times> pyval) list \<Rightarrow> pyexc + RuleResult" where
  "to_result rule r =
     exc_bind (dict_item r ''rule_id'') (\<lambda>rid.
     exc_bind (dict_item r ''rule_name'') (\<lambda>rname.
     exc_bind (dict_item r ''status'') (\<lambda>st.
     exc_bind (dict_item r ''severity'') (\<lambda>sev.
     exc_bind (py_get rule ''citation_url'' (PStr '''')) (\<lambda>url.
     Inr \<lparr> rule_id = rid, rule_name = rname, status = st, severity = sev,
           actual_value = dict_get r ''actual_value'' (PStr ''''),
           expected_value = dict_get r ''expected_value'' (PStr ''''),
           citation = dict_get r ''citation'' (PStr ''''),
           citation_url = dict_get r ''citation_url'' url,
           message = dict_get r ''message'' (PStr ''''),
           location = dict_get r ''location'' (PStr '''') \<rparr>)))))"

fun to_results :: "pyval \<Rightarrow> (string \<times> pyval) list list \<Rightarrow> pyexc + RuleResult list" where
  "to_results rule [] = Inr []"
| "to_results rule (r # rs) =
     exc_bind (to_result rule r) (\<lambda>x. exc_bind (to_results rule rs) (\<lambda>xs. Inr (x # xs)))"

text \<open>\<^verbatim>\<open>ComplianceEngine._run_custom\<close>.\<close>

definition run_custom ::
  "builtins \<Rightarrow> pyval \<Rightarrow> ModelData \<Rightarrow> pyexc + RuleResult list" where
  "run_custom py rule model =
     exc_bind (py_get rule ''parameters'' (PDict [])) (\<lambda>params.
     exc_bind (py_get params ''handler'' (PStr '''')) (\<lambda>handler_name.
     exc_bind (registry_get handler_name) (\<lambda>handler.
     case handler of
       None \<Rightarrow> exc_bind (skipped rule (''Unknown handler: '' @ str_of py handler_name) '''')
                 (\<lambda>r. Inr [r])
     | Some h \<Rightarrow> exc_bind (h py rule model) (to_results rule))))"

text \<open>
  The loop of \<^verbatim>\<open>_evaluate_rule\<close> over the resolved pairs: one result for each pair, and
  an exception at any pair abandons the rule.
\<close>

definition check_value ::
  "builtins \<Rightarrow> pyval \<Rightarrow> pyval \<Rightarrow> pyval \<times> string \<Rightarrow> pyexc + RuleResult" where
  "check_value py rule check_type vl =
     (case vl of (val, loc) \<Rightarrow>
        if val = PNone then skipped rule ''Value is None'' loc
        else if py_eq check_type (PStr ''range'') then check_range py rule val loc
        else if py_eq check_type (PStr ''exact'') then check_exact py rule val loc
        else if py_eq check_type (PStr ''exists'') then check_exists py rule val loc
        else skipped rule (''Unknown check_type: '' @ str_of py check_type) loc)"

fun check_values ::
  "builtins \<Rightarrow> pyval \<Rightarrow> pyval \<Rightarrow> (pyval \<times> string) list \<Rightarrow> pyexc + RuleResult list"
where
  "check_values py rule check_type [] = Inr []"
| "check_values py rule check_type (vl # vls) =
     exc_bind (check_value py rule check_type vl) (\<lambda>r.
     exc_bind (check_values py rule check_type vls) (\<lambda>rs. Inr (r # rs)))"

text \<open>\<^verbatim>\<open>ComplianceEngine._evaluate_rule\<close>.\<close>

definition evaluate_rule ::
  "builtins \<Rightarrow> pyval \<Rightarrow> ModelData \<Rightarrow> pyexc + RuleResult list" where
  "evaluate_rule py rule model =
     exc_bind (py_get rule ''check_type'' (PStr '''')) (\<lambda>check_type.
     if py_eq check_type (PStr ''custom'') then run_custom py rule model
     else
       exc_bind (py_get rule ''applies_to'' (PStr '''')) (\<lambda>applies_to.
       exc_bind (resolve_values_of py model applies_to) (\<lambda>vals.
       if vals = [] then exc_bind (skipped rule ''Data not available'' '''') (\<lambda>r. Inr [r])
       else check_values py rule check_type vals)))"

text \<open>
  The \<^verbatim>\<open>except Exception\<close> branch of \<^verbatim>\<open>evaluate\<close>: every field is read with
  \<^verbatim>\<open>rule.get\<close>, which raises only when the rule is not a dict.
\<close>

definition internal_error_result :: "pyval \<Rightarrow> pyexc + RuleResult" where
  "internal_error_result rule =
     exc_bind (py_get rule ''id'' (PStr ''?'')) (\<lambda>rid.
     exc_bind (py_get rule ''name'' (PStr ''?'')) (\<lambda>rname.
     exc_bind (py_get rule ''severity'' (PStr ''error'')) (\<lambda>sev.
     exc_bind (py_get rule ''citation'' (PStr '''')) (\<lambda>cit.
     exc_bind (py_get rule ''citation_url'' (PStr '''')) (\<lambda>url.
     Inr \<lparr> rule_id = rid, rule_name = rname, status = PStr ''SKIPPED'', severity = sev,
           actual_value = PStr '''', expected_value = PStr '''',
           citation = cit, citation_url = url,
           message = PStr ''Internal error evaluating rule.'',
           location = PStr '''' \<rparr>)))))"

text \<open>
  \<^verbatim>\<open>ComplianceEngine\<close> holds the loaded rules. \<^verbatim>\<open>evaluate\<close> writes to nothing but its
  own result list and the logger: the log (the identifiers passed to
  \<^verbatim>\<open>logger.warning\<close>) is the state threaded through the loop.
\<close>

record ComplianceEngine =
  rules :: "pyval list"

fun evaluate_loop ::
  "builtins \<Rightarrow> pyval list \<Rightarrow> ModelData \<Rightarrow> RuleResult list \<Rightarrow> pyval list
     \<Rightarrow> pyexc + (RuleResult list \<times> pyval list)" where
  "evaluate_loop py [] model results warned = Inr (results, warned)"
| "evaluate_loop py (rule # rest) model results warned =
     (case evaluate_rule py rule model of
        Inr rs \<Rightarrow> evaluate_loop py rest model (results @ rs) warned
      | Inl e \<Rightarrow>
          exc_bind (py_get rule ''id'' (PStr ''?'')) (\<lambda>logged.
          exc_bind (internal_error_result rule) (\<lambda>r.
          evaluate_loop py rest model (results @ [r]) (warned @ [logged]))))"

definition evaluate ::
  "builtins \<Rightarrow> ComplianceEngine \<Rightarrow> ModelData \<Rightarrow> pyval list
     \<Rightarrow> pyexc + (RuleResult list \<times> pyval list)" where
  "evaluate py self model warned = evaluate_loop py (rules self) model [] warned"

section \<open>Rule loading\<close>

text \<open>
  Reading a rule file is \<^verbatim>\<open>yaml.safe_load(path.read_text())\<close>. The file system is a
  function from paths to what that expression does there: the file is missing, it does
  not parse, or it parses to a value.
\<close>

datatype yaml_file = NoFile | BadYaml | YamlDoc pyval

definition read_yaml :: "(string \<Rightarrow> yaml_file) \<Rightarrow> string \<Rightarrow> pyexc + pyval" where
  "read_yaml fs path =
     (case fs path of NoFile \<Rightarrow> Inl FileNotFoundError | BadYaml \<Rightarrow> Inl YAMLError
      | YamlDoc v \<Rightarrow> Inr v)"

definition FEMA_RULES :: string where
  "FEMA_RULES = ''config/fema_rules.yaml''"

definition STATES_DIR :: string where
  "STATES_DIR = ''config/states''"

text \<open>\<^verbatim>\<open>list(x)\<close>, and \<^verbatim>\<open>set(x)\<close> as the list of its elements.\<close>

definition py_list :: "pyval \<Rightarrow> pyexc + pyval list" where
  "py_list x = (case py_iter x of None \<Rightarrow> Inl TypeError | Some vs \<Rightarrow> Inr vs)"

definition py_set :: "pyval \<Rightarrow> pyexc + pyval list" where
  "py_set x =
     (case py_iter x of None \<Rightarrow> Inl TypeError
      | Some vs \<Rightarrow> if list_all hashable vs then Inr vs else Inl TypeError)"

text \<open>\<^verbatim>\<open>[r for r in rules if r["id"] not in supersedes]\<close>.\<close>

fun drop_superseded :: "pyval list \<Rightarrow> pyval list \<Rightarrow> pyexc + pyval list" where
  "drop_superseded supersedes [] = Inr []"
| "drop_superseded supersedes (r # rs) =
     exc_bind (py_item r ''id'') (\<lambda>rid.
     if \<not> hashable rid then Inl TypeError
     else exc_bind (drop_superseded supersedes rs) (\<lambda>kept.
          Inr (if list_ex (py_eq rid) supersedes then kept else r # kept)))"

text \<open>
  \<^verbatim>\<open>load_rules\<close>. \<^verbatim>\<open>x or []\<close> is \<^verbatim>\<open>x\<close> when \<^verbatim>\<open>x\<close> is true and the empty list
  otherwise; a path object is always true.
\<close>

definition or_empty :: "pyval \<Rightarrow> pyval" where
  "or_empty x = (if py_truthy x then x else PList [])"

definition load_rules ::
  "builtins \<Rightarrow> (string \<Rightarrow> yaml_file) \<Rightarrow> string option \<Rightarrow> string option
     \<Rightarrow> string option \<Rightarrow> pyexc + pyval list" where
  "load_rules py fs state fema_path state_path =
     (let fema_file = (case fema_path of Some p \<Rightarrow> p | None \<Rightarrow> FEMA_RULES) in
      exc_bind (read_yaml fs fema_file) (\<lambda>fema_data.
      exc_bind (py_get fema_data ''rules'' (PList [])) (\<lambda>listed.
      exc_bind (py_list listed) (\<lambda>rules0.
      let st_file =
            (case state_path of Some p \<Rightarrow> Some p
             | None \<Rightarrow>
                 (case state of
                    Some s \<Rightarrow> if s \<noteq> [] then Some (STATES_DIR @ ''/'' @ str_lower py s @ ''.yaml'')
                              else None
                  | None \<Rightarrow> None))
      in case st_file of
           None \<Rightarrow> Inr rules0
         | Some f \<Rightarrow>
             if fs f = NoFile then Inr rules0
             else
               exc_bind (read_yaml fs f) (\<lambda>st_data.
               exc_bind (py_get st_data ''supersedes'' (PList [])) (\<lambda>sup.
               exc_bind (py_set (or_empty sup)) (\<lambda>supersedes.
               exc_bind (if supersedes \<noteq> [] then drop_superseded supersedes rules0
                         else Inr rules0) (\<lambda>kept.
               exc_bind (py_get st_data ''rules'' (PList [])) (\<lambda>st_rules.
               exc_bind (py_list (or_empty st_rules)) (\<lambda>extra.
               Inr (kept @ extra)))))))))))"

text \<open>\<^verbatim>\<open>ComplianceEngine.__init__\<close>.\<close>

definition ComplianceEngine_init ::
  "builtins \<Rightarrow> (string \<Rightarrow> yaml_file) \<Rightarrow> string option \<Rightarrow> string option
     \<Rightarrow> string option \<Rightarrow> pyexc + ComplianceEngine" where
  "ComplianceEngine_init py fs state fema_path state_path =
     exc_bind (load_rules py fs state fema_path state_path) (\<lambda>rs. Inr \<lparr> rules = rs \<rparr>)"

section \<open>The parsed model\<close>

text \<open>
  The dataclasses of \<^verbatim>\<open>parsers/geometry.py\<close> and \<^verbatim>\<open>parsers/flow.py\<close> that the
  resolver and the handlers read, with their properties, and each instance as the
  attribute table that \<^verbatim>\<open>getattr\<close> sees. The engine itself is generic: it reads
  attributes by name and never mentions these classes.
\<close>

record StationElevation =
  station :: pyfloat
  elevation :: pyfloat

record ManningRegion =
  n_value :: pyfloat
  start_station :: pyfloat

record IneffectiveFlowArea =
  left_station :: pyfloat
  left_elevation :: pyfloat
  left_permanent :: bool
  right_station :: pyfloat
  right_elevation :: pyfloat
  right_permanent :: bool

record LeveeStation =
  levee_station :: pyfloat
  levee_elevation :: pyfloat

record ReachLengths =
  reach_left :: pyfloat
  reach_channel :: pyfloat
  reach_right :: pyfloat

record BankStations =
  bank_left :: pyfloat
  bank_right :: pyfloat

record CrossSection =
  river_station :: pyfloat
  river :: string
  reach :: string
  description :: string
  reach_lengths :: ReachLengths
  station_elevation :: "StationElevation list"
  manning_regions :: "ManningRegion list"
  bank_stations :: "BankStations option"
  expansion :: pyfloat
  contraction :: pyfloat
  ineffective_areas :: "IneffectiveFlowArea list"
  levee_stations :: "LeveeStation list"

text \<open>The properties of \<^verbatim>\<open>CrossSection\<close>.\<close>

definition manning_n_left :: "CrossSection \<Rightarrow> pyval" where
  "manning_n_left xs =
     (case manning_regions xs of [] \<Rightarrow> PNone | r # rs \<Rightarrow> PFloat (n_value r))"

definition manning_n_right :: "CrossSection \<Rightarrow> pyval" where
  "manning_n_right xs =
     (if manning_regions xs = [] then PNone
      else PFloat (n_value (last (manning_regions xs))))"

fun first_region_past :: "pyfloat \<Rightarrow> ManningRegion list \<Rightarrow> ManningRegion option" where
  "first_region_past left_bank [] = None"
| "first_region_past left_bank (r # rs) =
     (if float_le left_bank (start_station r) then Some r
      else first_region_past left_bank rs)"

definition manning_n_channel :: "CrossSection \<Rightarrow> pyval" where
  "manning_n_channel xs =
     (case bank_stations xs of
        None \<Rightarrow> PNone
      | Some banks \<Rightarrow>
          if manning_regions xs = [] then PNone
          else (case first_region_past (bank_left banks) (manning_regions xs) of
                  Some r \<Rightarrow> PFloat (n_value r)
                | None \<Rightarrow> PFloat (n_value (last (manning_regions xs)))))"

definition StationElevation_obj :: "StationElevation \<Rightarrow> pyval" where
  "StationElevation_obj p =
     PObj [(''station'', PFloat (station p)), (''elevation'', PFloat (elevation p))]"

definition ManningRegion_obj :: "ManningRegion \<Rightarrow> pyval" where
  "ManningRegion_obj r =
     PObj [(''n_value'', PFloat (n_value r)), (''start_station'', PFloat (start_station r))]"

definition IneffectiveFlowArea_obj :: "IneffectiveFlowArea \<Rightarrow> pyval" where
  "IneffectiveFlowArea_obj a =
     PObj [(''left_station'', PFloat (left_station a)),
           (''left_elevation'', PFloat (left_elevation a)),
           (''left_permanent'', PBool (left_permanent a)),
           (''right_station'', PFloat (right_station a)),
           (''right_elevation'', PFloat (right_elevation a)),
           (''right_permanent'', PBool (right_permanent a))]"

definition LeveeStation_obj :: "LeveeStation \<Rightarrow> pyval" where
  "LeveeStation_obj l =
     PObj [(''station'', PFloat (levee_station l)), (''elevation'', PFloat (levee_elevation l))]"

definition ReachLengths_obj :: "ReachLengths \<Rightarrow> pyval" where
  "ReachLengths_obj l =
     PObj [(''left'', PFloat (reach_left l)), (''channel'', PFloat (reach_channel l)),
           (''right'', PFloat (reach_right l))]"

definition BankStations_obj :: "BankStations \<Rightarrow> pyval" where
  "BankStations_obj b =
     PObj [(''left'', PFloat (bank_left b)), (''right'', PFloat (bank_right b))]"

definition CrossSection_obj :: "CrossSection \<Rightarrow> pyval" where
  "CrossSection_obj xs =
     PObj [(''river_station'', PFloat (river_station xs)),
           (''river'', PStr (river xs)),
           (''reach'', PStr (reach xs)),
           (''description'', PStr (description xs)),
           (''reach_lengths'', ReachLengths_obj (reach_lengths xs)),
           (''station_elevation'', PList (map StationElevation_obj (station_elevation xs))),
           (''manning_regions'', PList (map ManningRegion_obj (manning_regions xs))),
           (''bank_stations'',
              (case bank_stations xs of None \<Rightarrow> PNone | Some b \<Rightarrow> BankStations_obj b)),
           (''expansion'', PFloat (expansion xs)),
           (''contraction'', PFloat (contraction xs)),
           (''ineffective_areas'', PList (map IneffectiveFlowArea_obj (ineffective_areas xs))),
           (''levee_stations'', PList (map LeveeStation_obj (levee_stations xs))),
           (''manning_n_left'', manning_n_left xs),
           (''manning_n_channel'', manning_n_channel xs),
           (''manning_n_right'', manning_n_right xs),
           (''manning_n_values'',
              PList [manning_n_left xs, manning_n_channel xs, manning_n_right xs])]"

text \<open>
  \<^verbatim>\<open>GeometryFile\<close>. The bridges are kept as attribute tables: no function modelled here
  reads inside one.
\<close>

record GeometryFile =
  title :: string
  cross_sections :: "CrossSection list"
  bridges :: "pyval list"

definition GeometryFile_obj :: "GeometryFile \<Rightarrow> pyval" where
  "GeometryFile_obj g =
     PObj [(''title'', PStr (title g)),
           (''cross_sections'', PList (map CrossSection_obj (cross_sections g))),
           (''bridges'', PList (bridges g))]"

text \<open>
  \<^verbatim>\<open>FlowFile\<close>, with its properties \<^verbatim>\<open>profile_names\<close> and \<^verbatim>\<open>num_profiles\<close>. The flow
  change locations and the boundary conditions are kept as attribute tables: the handlers
  only count them.
\<close>

record FlowProfile =
  name :: string

record FlowFile =
  flow_title :: string
  program_version :: string
  is_steady :: bool
  profiles :: "FlowProfile list"
  flow_change_locations :: "pyval list"
  steady_boundaries :: "pyval list"
  unsteady_boundaries :: "pyval list"

definition profile_names :: "FlowFile \<Rightarrow> pyval" where
  "profile_names f = PList (map (\<lambda>p. PStr (name p)) (profiles f))"

definition num_profiles :: "FlowFile \<Rightarrow> pyval" where
  "num_profiles f = PInt (int (length (profiles f)))"

definition FlowProfile_obj :: "FlowProfile \<Rightarrow> pyval" where
  "FlowProfile_obj p = PObj [(''name'', PStr (name p))]"

definition FlowFile_obj :: "FlowFile \<Rightarrow> pyval" where
  "FlowFile_obj f =
     PObj [(''title'', PStr (flow_title f)),
           (''program_version'', PStr (program_version f)),
           (''is_steady'', PBool (is_steady f)),
           (''profiles'', PList (map FlowProfile_obj (profiles f))),
           (''flow_change_locations'', PList (flow_change_locations f)),
           (''steady_boundaries'', PList (steady_boundaries f)),
           (''unsteady_boundaries'', PList (unsteady_boundaries f)),
           (''profile_names'', profile_names f),
           (''num_profiles'', num_profiles f)]"

text \<open>\<^verbatim>\<open>ModelData()\<close>: nothing loaded.\<close>

definition empty_model :: ModelData where
  "empty_model = \<lparr> geometry = PNone, plan = PNone, flow = PNone, project = PNone \<rparr>"

text \<open>
  The built-in functions used to run the model on examples. The formatter gives Python's
  text for \<^verbatim>\<open>None\<close>, booleans and strings and a fixed placeholder for everything else;
  lower and strip are the ASCII ones; no object has a built-in attribute. The examples
  hold ASCII strings only and read only attributes that are in the attribute tables.
\<close>

fun str_sample :: "pyval \<Rightarrow> string" where
  "str_sample PNone = ''None''"
| "str_sample (PBool b) = (if b then ''True'' else ''False'')"
| "str_sample (PStr s) = s"
| "str_sample _ = ''?''"

definition no_builtin_attr :: "pyval \<Rightarrow> string \<Rightarrow> pyval option" where
  "no_builtin_attr obj nm = None"

definition py_sample :: builtins where
  "py_sample = \<lparr> str_of = str_sample, str_lower = ascii_lower, str_strip = ascii_strip,
                 builtin_attr = no_builtin_attr \<rparr>"

section \<open>Sample rules\<close>

text \<open>
  Rules as \<^verbatim>\<open>yaml.safe_load\<close> returns them, used to run the definitions on concrete
  inputs. The range rule is the one of the specification's range example.
\<close>

definition sample_range_rule :: "string \<Rightarrow> pyval" where
  "sample_range_rule sev =
     PDict [(''id'', PStr ''FEMA-MANN-001''), (''name'', PStr ''Manning n''),
            (''severity'', PStr sev), (''citation'', PStr ''44 CFR 65.6''),
            (''check_type'', PStr ''range''),
            (''parameters'', PDict [(''min'', PFloat (Finite 0.020)),
                                    (''max'', PFloat (Finite 0.150))]),
            (''applies_to'', PStr ''geometry.cross_sections[].manning_n_channel'')]"

definition sample_bounds_fields :: "(string \<times> pyval) list \<Rightarrow> (string \<times> pyval) list" where
  "sample_bounds_fields bounds =
     [(''id'', PStr ''X-001''), (''name'', PStr ''Bounds''),
      (''severity'', PStr ''error''), (''citation'', PStr ''none''),
      (''check_type'', PStr ''range''),
      (''parameters'', PDict bounds)]"

definition sample_bounds_rule :: "(string \<times> pyval) list \<Rightarrow> pyval" where
  "sample_bounds_rule bounds = PDict (sample_bounds_fields bounds)"

definition sample_review_rule :: "string \<Rightarrow> pyval" where
  "sample_review_rule note =
     PDict [(''id'', PStr ''TX-FB-001''), (''name'', PStr ''Freeboard''),
            (''severity'', PStr ''warning''), (''citation'', PStr ''TWDB''),
            (''check_type'', PStr ''custom''),
            (''parameters'', PDict [(''handler'', PStr ''flag_for_manual_review''),
                                    (''review_note'', PStr note)])]"

section \<open>Sample models\<close>

text \<open>
  The cross-sections of the test suite's \<^verbatim>\<open>_xs\<close> helper (three Manning regions, bank
  stations at 100 and 300), and a model holding only a geometry.
\<close>

definition xs_sample :: "real \<Rightarrow> ManningRegion list \<Rightarrow> CrossSection" where
  "xs_sample st regions =
     \<lparr> river_station = Finite st, river = ''Test River'', reach = ''Main'', description = '''',
       reach_lengths = \<lparr> reach_left = Finite 0, reach_channel = Finite 0, reach_right = Finite 0 \<rparr>,
       station_elevation = [], manning_regions = regions,
       bank_stations = Some \<lparr> bank_left = Finite 100, bank_right = Finite 300 \<rparr>,
       expansion = Finite 0.3, contraction = Finite 0.1,
       ineffective_areas = [], levee_stations = [] \<rparr>"

definition three_regions :: "ManningRegion list" where
  "three_regions =
     [\<lparr> n_value = Finite 0.06, start_station = Finite 0 \<rparr>,
      \<lparr> n_value = Finite 0.035, start_station = Finite 100 \<rparr>,
      \<lparr> n_value = Finite 0.06, start_station = Finite 300 \<rparr>]"

definition sample_surcharge_rule :: pyval where
  "sample_surcharge_rule =
     PDict [(''id'', PStr ''FEMA-FW-001''), (''name'', PStr ''Floodway surcharge''),
            (''severity'', PStr ''error''), (''citation'', PStr ''44 CFR 60.3''),
            (''check_type'', PStr ''range''),
            (''parameters'', PDict [(''min'', PFloat (Finite 0)), (''max'', PFloat (Finite 1))]),
            (''applies_to'', PStr ''plan.encroachment.target_surcharge'')]"

definition sample_overbank_rule :: pyval where
  "sample_overbank_rule =
     PDict [(''id'', PStr ''FEMA-MANN-002''), (''name'', PStr ''Overbank n''),
            (''severity'', PStr ''error''), (''citation'', PStr ''44 CFR 65.6''),
            (''check_type'', PStr ''range''),
            (''parameters'', PDict [(''min'', PFloat (Finite 0.020)),
                                    (''max'', PFloat (Finite 0.200))]),
            (''applies_to'', PStr ''geometry.cross_sections[].manning_n_overbank'')]"

definition geometry_model :: "CrossSection list \<Rightarrow> ModelData" where
  "geometry_model xss =
     \<lparr> geometry = GeometryFile_obj \<lparr> title = ''Test'', cross_sections = xss, bridges = [] \<rparr>,
       plan = PNone, flow = PNone, project = PNone \<rparr>"

text \<open>A steady flow file with the given profile names, and a model holding only it.\<close>

definition flow_sample :: "string list \<Rightarrow> FlowFile" where
  "flow_sample names =
     \<lparr> flow_title = ''Test'', program_version = '''', is_steady = True,
       profiles = map (\<lambda>n. \<lparr> name = n \<rparr>) names, flow_change_locations = [],
       steady_boundaries = [], unsteady_boundaries = [] \<rparr>"

definition flow_model :: "FlowFile \<Rightarrow> ModelData" where
  "flow_model f = \<lparr> geometry = PNone, plan = PNone, flow = FlowFile_obj f, project = PNone \<rparr>"

definition sample_profile_rule :: "string list \<Rightarrow> pyval" where
  "sample_profile_rule accepted =
     PDict [(''id'', PStr ''FEMA-EVENT-001''), (''name'', PStr ''Base flood profile''),
            (''severity'', PStr ''error''), (''citation'', PStr ''44 CFR 60.3''),
            (''check_type'', PStr ''custom''),
            (''parameters'', PDict [(''handler'', PStr ''check_100yr_profile_exists''),
                                    (''accepted_names'', PList (map PStr accepted))])]"

text \<open>The text of \<^verbatim>\<open>sep.join(names)\<close> for a list of strings.\<close>

fun join_with :: "string \<Rightarrow> string list \<Rightarrow> string" where
  "join_with sep [] = []"
| "join_with sep [s] = s"
| "join_with sep (s # t # ts) = s @ sep @ join_with sep (t # ts)"

text \<open>
  A rule directory: a baseline of two rules, a Texas overlay that supersedes
  \<^verbatim>\<open>FEMA-FW-001\<close> and brings \<^verbatim>\<open>TX-FW-001\<close>, and no other file.
\<close>

definition sample_texas_rule :: pyval where
  "sample_texas_rule =
     PDict [(''id'', PStr ''TX-FW-001''), (''name'', PStr ''Zero-rise floodway''),
            (''severity'', PStr ''error''), (''citation'', PStr ''TWDB''),
            (''check_type'', PStr ''range''),
            (''parameters'', PDict [(''min'', PFloat (Finite 0)), (''max'', PFloat (Finite 0))]),
            (''applies_to'', PStr ''plan.encroachment.target_surcharge'')]"

definition sample_fs :: "string \<Rightarrow> yaml_file" where
  "sample_fs path =
     (if path = ''config/fema_rules.yaml''
      then YamlDoc (PDict [(''rules'', PList [sample_surcharge_rule, sample_range_rule ''error''])])
      else if path = ''config/states/texas.yaml''
      then YamlDoc (PDict [(''state'', PStr ''Texas''),
                           (''supersedes'', PList [PStr ''FEMA-FW-001'']),
                           (''rules'', PList [sample_texas_rule])])
      else NoFile)"

text \<open>
  An engine with a custom rule, a rule whose parameters are not a mapping (its range check
  raises \<^verbatim>\<open>AttributeError\<close>) and a scalar range rule.
\<close>

definition sample_broken_rule :: pyval where
  "sample_broken_rule =
     PDict [(''id'', PStr ''X-BROKEN''), (''name'', PStr ''Broken''),
            (''severity'', PStr ''warning''), (''citation'', PStr ''none''),
            (''check_type'', PStr ''range''), (''parameters'', PNone),
            (''applies_to'', PStr ''geometry.cross_sections[].manning_n_overbank'')]"

definition sample_engine :: ComplianceEngine where
  "sample_engine =
     \<lparr> rules = [sample_review_rule ''Verify freeboard.'', sample_broken_rule,
                sample_surcharge_rule] \<rparr>"

text \<open>
  What one iteration of the loop of \<^verbatim>\<open>evaluate\<close> appends for a rule, to the results and
  to the log, when the iteration itself does not raise: the results of the rule, or the
  single result of the \<^verbatim>\<open>except\<close> branch. The lemma \<open>evaluate_loop_dict\<close> below
  relates the loop to them.
\<close>

definition rule_results :: "builtins \<Rightarrow> ModelData \<Rightarrow> pyval \<Rightarrow> RuleResult list" where
  "rule_results py model rule =
     (case evaluate_rule py rule model of
        Inr rs \<Rightarrow> rs
      | Inl e \<Rightarrow> (case internal_error_result rule of Inr r \<Rightarrow> [r] | Inl e' \<Rightarrow> []))"

definition rule_warnings :: "builtins \<Rightarrow> ModelData \<Rightarrow> pyval \<Rightarrow> pyval list" where
  "rule_warnings py model rule =
     (case evaluate_rule py rule model of
        Inr rs \<Rightarrow> []
      | Inl e \<Rightarrow> (case py_get rule ''id'' (PStr ''?'') of Inr i \<Rightarrow> [i] | Inl e' \<Rightarrow> []))"

section \<open>Properties\<close>


subsection \<open>Comparison lemmas\<close>

lemma py_eq_str: "py_eq v (PStr s) = (v = PStr s)"
  by (cases v) (auto split: pyfloat.splits)

lemma py_le_real:
  "real_of a = Some x \<Longrightarrow> real_of b = Some y \<Longrightarrow> py_le a b = Inr (x \<le> y)"
  by (cases a; cases b) (auto split: pyfloat.splits if_splits)

lemma py_le_num:
  "num_of a = Some x \<Longrightarrow> num_of b = Some y \<Longrightarrow> py_le a b = Inr (float_le x y)"
  by (cases a; cases b) auto

lemma float_le_NegInf: "x \<noteq> NaN \<Longrightarrow> float_le NegInf x"
  by (cases x) auto

lemma float_le_PosInf: "x \<noteq> NaN \<Longrightarrow> float_le x PosInf"
  by (cases x) auto

subsection \<open>The sample built-ins\<close>

lemma py_sample_simps [simp]:
  "str_of py_sample = str_sample"
  "str_lower py_sample = ascii_lower"
  "str_strip py_sample = ascii_strip"
  "builtin_attr py_sample obj nm = None"
  by (simp_all add: py_sample_def no_builtin_attr_def)

lemma char_of_eq: "(char_of (n::nat) = c) = (n mod 256 = of_char c)"
  by (simp add: char_of_eq_iff take_bit_eq_mod)

subsection \<open>Attribute lookup in a table\<close>

lemma py_getattr_PObj [simp]:
  "py_getattr py (PObj attrs) nm =
     (case map_of attrs nm of
        Some v \<Rightarrow> v
      | None \<Rightarrow> (case builtin_attr py (PObj attrs) nm of Some v \<Rightarrow> v | None \<Rightarrow> PNone))"
  by (simp add: py_getattr_def split: option.splits)

lemma py_attr_PObj [simp]:
  "py_attr py (PObj attrs) nm =
     (case map_of attrs nm of
        Some v \<Rightarrow> Inr v
      | None \<Rightarrow> (case builtin_attr py (PObj attrs) nm of
                   Some v \<Rightarrow> Inr v | None \<Rightarrow> Inl AttributeError))"
  by (simp add: py_attr_def split: option.splits)


subsection \<open>The range check\<close>

text \<open>
  C1 (as amended). For a range rule that carries its identifier, name, severity and
  citation and numeric bounds \<open>a\<close> and \<open>b\<close>, and a resolved numeric value \<open>x\<close>, the range
  check returns a result whose status is PASS exactly when \<open>a \<le> x \<le> b\<close>, both ends
  included; when the check fails the status is WARNING if the severity is "warning" and
  FAIL for every other severity, "info" included.
\<close>

theorem check_range_status:
  assumes rule: "rule = PDict d"
    and keys: "map_of d ''id'' = Some rid" "map_of d ''name'' = Some rname"
      "map_of d ''severity'' = Some sev" "map_of d ''citation'' = Some cit"
    and params: "map_of d ''parameters'' = Some (PDict ps)"
      "map_of ps ''min'' = Some lo" "map_of ps ''max'' = Some hi"
    and nums: "real_of lo = Some a" "real_of val = Some x" "real_of hi = Some b"
  shows "\<exists>res. check_range py rule val loc = Inr res
           \<and> status res = (if a \<le> x \<and> x \<le> b then PStr ''PASS''
                           else if sev = PStr ''warning'' then PStr ''WARNING''
                           else PStr ''FAIL'')"
proof -
  have le1: "py_le lo val = Inr (a \<le> x)" and le2: "py_le val hi = Inr (x \<le> b)"
    using nums by (simp_all add: py_le_real)
  show ?thesis
    unfolding check_range_def rule
    by (simp add: exc_bind_def dict_get_def dict_item_def keys params le1 le2 py_eq_str
        Let_def del: real_of.simps)
qed

theorem check_range_status_witness:
  "(\<exists>res. check_range py_sample (sample_range_rule ''warning'')
             (PFloat (Finite 0.019999)) ''RS 1'' = Inr res
        \<and> status res = PStr ''WARNING'')
   \<and> (\<exists>res. check_range py_sample (sample_range_rule ''error'')
             (PFloat (Finite 0.150)) ''RS 1'' = Inr res
        \<and> status res = PStr ''PASS'')"
  using check_range_status [of "sample_range_rule ''warning''" _ "PStr ''FEMA-MANN-001''"
      "PStr ''Manning n''" "PStr ''warning''" "PStr ''44 CFR 65.6''" _
      "PFloat (Finite 0.020)" "PFloat (Finite 0.150)" "0.020" "PFloat (Finite 0.019999)"
      "0.019999" "0.150" py_sample "''RS 1''"]
    check_range_status [of "sample_range_rule ''error''" _ "PStr ''FEMA-MANN-001''"
      "PStr ''Manning n''" "PStr ''error''" "PStr ''44 CFR 65.6''" _
      "PFloat (Finite 0.020)" "PFloat (Finite 0.150)" "0.020" "PFloat (Finite 0.150)"
      "0.150" "0.150" py_sample "''RS 1''"]
  by (simp add: sample_range_rule_def)

text \<open>
  C1 as stated fails in its last clause: a rule of severity "info" is not of error
  severity, and its range check on the value 0.001 against [0.020, 0.150] has status
  FAIL.
\<close>

theorem check_range_info_counterexample:
  "map_sum id status
     (check_range py_sample (sample_range_rule ''info'') (PFloat (Finite 0.001)) [])
   = Inr (PStr ''FAIL'')"
  by (simp add: check_range_def sample_range_rule_def exc_bind_def dict_get_def dict_item_def)

text \<open>
  C10 (as amended). For a range rule whose parameters omit \<open>min\<close>, the range check is the
  check of the same rule with \<open>min\<close> set to negative infinity, and likewise \<open>max\<close> and
  positive infinity. For a value that is a number (an integer, a boolean, a float) the
  check does not raise: with only \<open>max\<close> it passes exactly when the value is at most
  \<open>max\<close>, with only \<open>min\<close> exactly when it is at least \<open>min\<close>, and with neither bound
  it passes for every number other than NaN; on NaN, which compares false with both
  infinities, it returns WARNING for a rule of severity "warning" and FAIL otherwise.
\<close>

theorem check_range_missing_bounds:
  assumes rule: "rule = PDict d"
    and keys: "map_of d ''id'' = Some rid" "map_of d ''name'' = Some rname"
      "map_of d ''severity'' = Some sev" "map_of d ''citation'' = Some cit"
    and params: "map_of d ''parameters'' = Some (PDict ps)"
    and val: "num_of val = Some x"
  shows "(map_of ps ''min'' = None \<longrightarrow>
            check_range py rule val loc
            = check_range py
                (PDict ((''parameters'', PDict ((''min'', PFloat NegInf) # ps)) # d)) val loc)
       \<and> (map_of ps ''max'' = None \<longrightarrow>
            check_range py rule val loc
            = check_range py
                (PDict ((''parameters'', PDict ((''max'', PFloat PosInf) # ps)) # d)) val loc)
       \<and> (map_of ps ''min'' = None \<and> map_of ps ''max'' = Some hi \<and> num_of hi = Some h \<longrightarrow>
            (\<exists>res. check_range py rule val loc = Inr res
                \<and> (status res = PStr ''PASS'') = float_le x h))
       \<and> (map_of ps ''max'' = None \<and> map_of ps ''min'' = Some lo \<and> num_of lo = Some l \<longrightarrow>
            (\<exists>res. check_range py rule val loc = Inr res
                \<and> (status res = PStr ''PASS'') = float_le l x))
       \<and> (map_of ps ''min'' = None \<and> map_of ps ''max'' = None \<longrightarrow>
            (\<exists>res. check_range py rule val loc = Inr res
                \<and> status res = (if x \<noteq> NaN then PStr ''PASS''
                                else if sev = PStr ''warning'' then PStr ''WARNING''
                                else PStr ''FAIL'')))"
proof -
  have lo: "py_le (PFloat NegInf) val = Inr (x \<noteq> NaN)"
    using val by (cases x) (simp_all add: py_le_num)
  have hi: "py_le val (PFloat PosInf) = Inr (x \<noteq> NaN)"
    using val by (cases x) (simp_all add: py_le_num)
  have nan: "\<not> float_le h NaN" for h
    by (cases h) simp_all
  have up: "num_of hi = Some h \<Longrightarrow> py_le val hi = Inr (float_le x h)" for hi h
    using val by (simp add: py_le_num)
  have dn: "num_of lo = Some l \<Longrightarrow> py_le lo val = Inr (float_le l x)" for lo l
    using val by (simp add: py_le_num)
  note defs = check_range_def rule exc_bind_def dict_get_def dict_item_def keys params Let_def
  have 1: "check_range py rule val loc
           = check_range py
               (PDict ((''parameters'', PDict ((''min'', PFloat NegInf) # ps)) # d)) val loc"
    if "map_of ps ''min'' = None"
    using that by (simp add: defs cong: if_cong)
  have 2: "check_range py rule val loc
           = check_range py
               (PDict ((''parameters'', PDict ((''max'', PFloat PosInf) # ps)) # d)) val loc"
    if "map_of ps ''max'' = None"
    using that by (simp add: defs cong: if_cong)
  have 3: "\<exists>res. check_range py rule val loc = Inr res
                \<and> (status res = PStr ''PASS'') = float_le x h"
    if "map_of ps ''min'' = None" "map_of ps ''max'' = Some hi" "num_of hi = Some h" for hi h
    using that by (simp add: defs lo up py_eq_str del: py_le.simps)
  have 4: "\<exists>res. check_range py rule val loc = Inr res
                \<and> (status res = PStr ''PASS'') = float_le l x"
    if "map_of ps ''max'' = None" "map_of ps ''min'' = Some lo" "num_of lo = Some l" for lo l
    using that by (simp add: defs hi dn nan py_eq_str del: py_le.simps)
  have 5: "\<exists>res. check_range py rule val loc = Inr res
                \<and> status res = (if x \<noteq> NaN then PStr ''PASS''
                                else if sev = PStr ''warning'' then PStr ''WARNING''
                                else PStr ''FAIL'')"
    if "map_of ps ''min'' = None" "map_of ps ''max'' = None"
    using that by (simp add: defs lo hi py_eq_str del: py_le.simps)
  from 1 2 3 4 5 show ?thesis by blast
qed

theorem check_range_missing_bounds_witness:
  "(\<exists>res. check_range py_sample (sample_bounds_rule []) (PInt 1000000) [] = Inr res
        \<and> status res = PStr ''PASS'')
   \<and> (\<exists>res. check_range py_sample (sample_bounds_rule [(''max'', PFloat (Finite 0.150))])
               (PFloat NegInf) [] = Inr res
        \<and> status res = PStr ''PASS'')
   \<and> (\<exists>res. check_range py_sample (sample_bounds_rule [(''min'', PFloat (Finite 0.020))])
               (PFloat (Finite 0.001)) [] = Inr res
        \<and> status res \<noteq> PStr ''PASS'')"
  using check_range_missing_bounds [where rule = "sample_bounds_rule []"
      and d = "sample_bounds_fields []" and rid = "PStr ''X-001''"
      and rname = "PStr ''Bounds''" and sev = "PStr ''error''" and cit = "PStr ''none''"
      and ps = "[]" and val = "PInt 1000000" and x = "Finite 1000000"
      and py = py_sample and loc = "[]", THEN conjunct2, THEN conjunct2, THEN conjunct2,
      THEN conjunct2]
    check_range_missing_bounds [where rule = "sample_bounds_rule [(''max'', PFloat (Finite 0.150))]"
      and d = "sample_bounds_fields [(''max'', PFloat (Finite 0.150))]"
      and rid = "PStr ''X-001''"
      and rname = "PStr ''Bounds''" and sev = "PStr ''error''" and cit = "PStr ''none''"
      and ps = "[(''max'', PFloat (Finite 0.150))]" and val = "PFloat NegInf" and x = NegInf
      and hi = "PFloat (Finite 0.150)" and h = "Finite 0.150"
      and py = py_sample and loc = "[]", THEN conjunct2, THEN conjunct2, THEN conjunct1]
    check_range_missing_bounds [where rule = "sample_bounds_rule [(''min'', PFloat (Finite 0.020))]"
      and d = "sample_bounds_fields [(''min'', PFloat (Finite 0.020))]"
      and rid = "PStr ''X-001''"
      and rname = "PStr ''Bounds''" and sev = "PStr ''error''" and cit = "PStr ''none''"
      and ps = "[(''min'', PFloat (Finite 0.020))]" and val = "PFloat (Finite 0.001)"
      and x = "Finite 0.001" and lo = "PFloat (Finite 0.020)" and l = "Finite 0.020"
      and py = py_sample and loc = "[]", THEN conjunct2, THEN conjunct2, THEN conjunct2,
      THEN conjunct1]
  by (simp add: sample_bounds_rule_def sample_bounds_fields_def)

text \<open>
  C10 as stated fails on the float NaN, which compares false with both infinities: the
  check of a rule with no bounds at all returns, and its status is FAIL.
\<close>

theorem check_range_nan_counterexample:
  "map_sum id status (check_range py_sample (sample_bounds_rule []) (PFloat NaN) [])
   = Inr (PStr ''FAIL'')"
  by (simp add: check_range_def sample_bounds_rule_def sample_bounds_fields_def exc_bind_def
      dict_get_def dict_item_def)


subsection \<open>The manual-review handler\<close>

text \<open>
  C8 (as amended). For every rule that carries an identifier, a name, a citation and a
  parameters mapping, and for every model, the manual-review handler returns exactly one
  result, with status PASS and severity "info" whatever the rule's own severity; its
  message is what \<^verbatim>\<open>str.strip\<close> returns on the configured review note when the note
  is a string (on the text "Manual review required." when no note is configured), and
  the note itself when it is not a string.
\<close>

theorem flag_for_manual_review_result:
  assumes rule: "rule = PDict d"
    and keys: "map_of d ''id'' = Some rid" "map_of d ''name'' = Some rname"
      "map_of d ''citation'' = Some cit"
    and params: "map_of d ''parameters'' = Some (PDict ps)"
  shows "\<exists>r. flag_for_manual_review py rule model = Inr [r]
           \<and> map_of r ''status'' = Some (PStr ''PASS'')
           \<and> map_of r ''severity'' = Some (PStr ''info'')
           \<and> map_of r ''message'' =
               Some (case map_of ps ''review_note'' of
                       None \<Rightarrow> PStr (str_strip py ''Manual review required.'')
                     | Some (PStr s) \<Rightarrow> PStr (str_strip py s)
                     | Some v \<Rightarrow> v)"
  unfolding flag_for_manual_review_def rule
  by (simp add: exc_bind_def dict_get_def dict_item_def keys params Let_def
      split: option.splits pyval.splits)

theorem flag_for_manual_review_result_witness:
  "\<exists>r. flag_for_manual_review py_sample (sample_review_rule ''  Verify freeboard. '') empty_model = Inr [r]
       \<and> map_of r ''status'' = Some (PStr ''PASS'')
       \<and> map_of r ''severity'' = Some (PStr ''info'')
       \<and> map_of r ''message'' = Some (PStr ''Verify freeboard.'')"
  using flag_for_manual_review_result [where rule = "sample_review_rule ''  Verify freeboard. ''"
      and d = "[(''id'', PStr ''TX-FB-001''), (''name'', PStr ''Freeboard''),
            (''severity'', PStr ''warning''), (''citation'', PStr ''TWDB''),
            (''check_type'', PStr ''custom''),
            (''parameters'', PDict [(''handler'', PStr ''flag_for_manual_review''),
                                    (''review_note'', PStr ''  Verify freeboard. '')])]"
      and rid = "PStr ''TX-FB-001''" and rname = "PStr ''Freeboard''" and cit = "PStr ''TWDB''"
      and ps = "[(''handler'', PStr ''flag_for_manual_review''),
                 (''review_note'', PStr ''  Verify freeboard. '')]"
      and model = empty_model and py = py_sample]
  by (simp add: sample_review_rule_def ascii_strip_def is_space_def)

text \<open>
  C8 as stated fails where the note has surrounding whitespace: for the ASCII note
  "Check freeboard." followed by a newline (what a YAML block scalar yields) the message
  is "Check freeboard.", which is not the configured note.
\<close>

theorem flag_for_manual_review_counterexample:
  "flag_for_manual_review py_sample (sample_review_rule (''Check freeboard.'' @ [char_of (10 :: nat)]))
     empty_model
   = Inr [[(''rule_id'', PStr ''TX-FB-001''), (''rule_name'', PStr ''Freeboard''),
           (''status'', PStr ''PASS''), (''severity'', PStr ''info''),
           (''actual_value'', PStr ''flagged for review''),
           (''expected_value'', PStr ''manual verification''), (''citation'', PStr ''TWDB''),
           (''message'', PStr ''Check freeboard.'')]]
   \<and> PStr ''Check freeboard.'' \<noteq> PStr (''Check freeboard.'' @ [char_of (10 :: nat)])"
  by (simp add: flag_for_manual_review_def sample_review_rule_def exc_bind_def dict_get_def
      dict_item_def ascii_strip_def is_space_def)

text \<open>
  Through the engine: a custom rule naming the handler yields one \<open>RuleResult\<close> with the
  same status, severity and message.
\<close>

lemma run_custom_manual_review:
  assumes rule: "rule = PDict d"
    and keys: "map_of d ''id'' = Some rid" "map_of d ''name'' = Some rname"
      "map_of d ''citation'' = Some cit"
    and params: "map_of d ''parameters'' = Some (PDict ps)"
      "map_of ps ''handler'' = Some (PStr ''flag_for_manual_review'')"
  shows "\<exists>res. run_custom py rule model = Inr [res]
           \<and> status res = PStr ''PASS'' \<and> severity res = PStr ''info''
           \<and> message res =
               (case map_of ps ''review_note'' of
                  None \<Rightarrow> PStr (str_strip py ''Manual review required.'')
                | Some (PStr s) \<Rightarrow> PStr (str_strip py s)
                | Some v \<Rightarrow> v)"
  unfolding run_custom_def rule
  by (simp add: exc_bind_def dict_get_def dict_item_def keys params Let_def registry_get_def
      HANDLER_REGISTRY_def flag_for_manual_review_def to_result_def
      split: option.splits pyval.splits)


subsection \<open>Absent data\<close>

lemma py_split_nonempty: "py_split c s \<noteq> []"
  by (induction s) (auto split: list.splits)

lemma walk_attrs_None: "walk_attrs py PNone ps = PNone"
  by (cases ps) auto

text \<open>
  A path whose first segment names a sub-model that is not loaded resolves to \<^verbatim>\<open>None\<close>:
  the walk stops at the first \<^verbatim>\<open>None\<close>, whatever the later segments are.
\<close>

lemma getattr_path_absent:
  assumes "py_split CHR ''.'' p = seg # rest"
    and "map_of [(''geometry'', geometry m), (''plan'', plan m), (''flow'', flow m),
                 (''project'', project m)] seg = Some PNone"
  shows "getattr_path py (ModelData_obj m) p = PNone"
proof -
  have "py_getattr py (ModelData_obj m) seg = PNone"
    using assms(2) by (simp add: ModelData_obj_def py_getattr_def)
  then show ?thesis
    by (simp add: getattr_path_def assms(1) walk_attrs_None ModelData_obj_def)
qed

lemma empty_model_fields:
  "geometry empty_model = PNone" "plan empty_model = PNone"
  "flow empty_model = PNone" "project empty_model = PNone"
  by (simp_all add: empty_model_def)

lemma resolve_values_empty_examples:
  "resolve_values py empty_model ''geometry.cross_sections[].manning_n_channel'' = []"
  "resolve_values py empty_model ''plan.encroachment.target_surcharge'' = [(PNone, '''')]"
  by (simp_all add: resolve_values_def getattr_path_def ModelData_obj_def empty_model_def
      py_getattr_def py_rstrip_char_def)

lemma skipped_dict:
  assumes "map_of d ''id'' = Some rid" "map_of d ''name'' = Some rname"
    "map_of d ''severity'' = Some sev" "map_of d ''citation'' = Some cit"
  shows "skipped (PDict d) reason loc =
     Inr \<lparr> rule_id = rid, rule_name = rname, status = PStr ''SKIPPED'', severity = sev,
           actual_value = PStr '''', expected_value = PStr '''',
           citation = cit, citation_url = dict_get d ''citation_url'' (PStr ''''),
           message = PStr reason, location = PStr loc \<rparr>"
  using assms by (simp add: skipped_def exc_bind_def dict_item_def)

lemma check_values_all2:
  "check_values py rule ct vals = Inr rs
   \<Longrightarrow> list_all2 (\<lambda>v r. check_value py rule ct v = Inr r) vals rs"
proof (induction vals arbitrary: rs)
  case Nil
  then show ?case by simp
next
  case (Cons v vals)
  then show ?case
    by (auto simp add: exc_bind_def split: sum.splits)
qed

lemma check_values_None:
  assumes keys: "map_of d ''id'' = Some rid" "map_of d ''name'' = Some rname"
    "map_of d ''severity'' = Some sev" "map_of d ''citation'' = Some cit"
  shows "\<forall>v\<in>set vals. fst v = PNone
   \<Longrightarrow> \<exists>rs. check_values py (PDict d) ct vals = Inr rs \<and> length rs = length vals
          \<and> (\<forall>r\<in>set rs. status r = PStr ''SKIPPED'' \<and> message r = PStr ''Value is None'')"
proof (induction vals)
  case Nil
  then show ?case by simp
next
  case (Cons v vals)
  then obtain rs where rs: "check_values py (PDict d) ct vals = Inr rs"
    "length rs = length vals"
    "\<forall>r\<in>set rs. status r = PStr ''SKIPPED'' \<and> message r = PStr ''Value is None''"
    by auto
  obtain a loc where v: "v = (a, loc)" by (cases v)
  with Cons.prems have a: "a = PNone" by simp
  show ?case
    by (simp add: v a check_value_def skipped_dict [OF keys] exc_bind_def rs)
qed

text \<open>
  C6. For every rule that is not custom and carries its identifier, name, severity and
  citation: when the path resolves to no pair at all, evaluating the rule returns exactly
  one result, SKIPPED with message "Data not available"; a resolved pair whose value is
  \<open>None\<close> gives, at its position, a SKIPPED result with message "Value is None" and the
  pair's location, and when every value is \<open>None\<close> the rule returns such results only,
  whatever its check type and parameters: no generic check runs. Where the first segment
  of the path names a sub-model that is not loaded, path resolution does not raise: a
  scalar path resolves to the single pair \<open>(None, "")\<close> and a collection path to the
  empty list, whatever the later segments are.
\<close>

theorem evaluate_rule_absent_data:
  assumes rule: "rule = PDict d"
    and keys: "map_of d ''id'' = Some rid" "map_of d ''name'' = Some rname"
      "map_of d ''severity'' = Some sev" "map_of d ''citation'' = Some cit"
    and ct: "\<not> py_eq (dict_get d ''check_type'' (PStr '''')) (PStr ''custom'')"
    and path: "dict_get d ''applies_to'' (PStr '''') = PStr path"
    and vals: "resolve_values py model path = vals"
  shows "(vals = [] \<longrightarrow>
            (\<exists>r. evaluate_rule py rule model = Inr [r] \<and> status r = PStr ''SKIPPED''
                 \<and> message r = PStr ''Data not available''))
       \<and> (\<forall>rs. vals \<noteq> [] \<and> evaluate_rule py rule model = Inr rs \<longrightarrow>
             length rs = length vals
             \<and> (\<forall>i<length vals. fst (vals ! i) = PNone \<longrightarrow>
                   status (rs ! i) = PStr ''SKIPPED''
                   \<and> message (rs ! i) = PStr ''Value is None''
                   \<and> location (rs ! i) = PStr (snd (vals ! i))))
       \<and> (vals \<noteq> [] \<and> (\<forall>v\<in>set vals. fst v = PNone) \<longrightarrow>
            (\<exists>rs. evaluate_rule py rule model = Inr rs \<and> length rs = length vals
                 \<and> (\<forall>r\<in>set rs. status r = PStr ''SKIPPED''
                        \<and> message r = PStr ''Value is None'')))
       \<and> (\<forall>seg rest. \<not> py_contains ''[]'' path \<and> py_split CHR ''.'' path = seg # rest
             \<and> map_of [(''geometry'', geometry model), (''plan'', plan model),
                        (''flow'', flow model), (''project'', project model)] seg = Some PNone
             \<longrightarrow> resolve_values_of py model (PStr path) = Inr [(PNone, '''')])
       \<and> (\<forall>cp sep fp seg rest. py_contains ''[]'' path
             \<and> py_partition ''[]'' path = (cp, sep, fp)
             \<and> py_split CHR ''.'' (py_rstrip_char CHR ''.'' cp) = seg # rest
             \<and> map_of [(''geometry'', geometry model), (''plan'', plan model),
                        (''flow'', flow model), (''project'', project model)] seg = Some PNone
             \<longrightarrow> resolve_values_of py model (PStr path) = Inr [])"
proof -
  let ?ct = "dict_get d ''check_type'' (PStr '''')"
  have ev: "evaluate_rule py rule model =
              (if vals = [] then exc_bind (skipped rule ''Data not available'' '''') (\<lambda>r. Inr [r])
               else check_values py rule ?ct vals)"
    using ct by (simp add: evaluate_rule_def rule exc_bind_def path vals)
  have 1: "\<exists>r. evaluate_rule py rule model = Inr [r] \<and> status r = PStr ''SKIPPED''
                 \<and> message r = PStr ''Data not available''" if "vals = []"
    using that unfolding ev by (simp add: rule skipped_dict [OF keys] exc_bind_def)
  have 2: "length rs = length vals
             \<and> (\<forall>i<length vals. fst (vals ! i) = PNone \<longrightarrow>
                   status (rs ! i) = PStr ''SKIPPED''
                   \<and> message (rs ! i) = PStr ''Value is None''
                   \<and> location (rs ! i) = PStr (snd (vals ! i)))"
    if "vals \<noteq> []" "evaluate_rule py rule model = Inr rs" for rs
  proof -
    from that have "check_values py rule ?ct vals = Inr rs" by (simp add: ev)
    then have all2: "list_all2 (\<lambda>v r. check_value py rule ?ct v = Inr r) vals rs"
      by (rule check_values_all2)
    then have len: "length rs = length vals" by (simp add: list_all2_lengthD)
    have "status (rs ! i) = PStr ''SKIPPED'' \<and> message (rs ! i) = PStr ''Value is None''
            \<and> location (rs ! i) = PStr (snd (vals ! i))"
      if i: "i < length vals" and n: "fst (vals ! i) = PNone" for i
    proof -
      from all2 i have c: "check_value py rule ?ct (vals ! i) = Inr (rs ! i)"
        using list_all2_nthD [OF all2, of i] by simp
      obtain a loc where v: "vals ! i = (a, loc)" by (cases "vals ! i")
      with n have a: "a = PNone" by simp
      from c have "rs ! i = \<lparr> rule_id = rid, rule_name = rname, status = PStr ''SKIPPED'',
           severity = sev, actual_value = PStr '''', expected_value = PStr '''',
           citation = cit, citation_url = dict_get d ''citation_url'' (PStr ''''),
           message = PStr ''Value is None'', location = PStr loc \<rparr>"
        by (simp add: v a check_value_def rule skipped_dict [OF keys])
      then show ?thesis by (simp add: v)
    qed
    with len show ?thesis by blast
  qed
  have 3: "\<exists>rs. evaluate_rule py rule model = Inr rs \<and> length rs = length vals
                 \<and> (\<forall>r\<in>set rs. status r = PStr ''SKIPPED''
                        \<and> message r = PStr ''Value is None'')"
    if "vals \<noteq> []" "\<forall>v\<in>set vals. fst v = PNone"
    using that check_values_None [OF keys, of vals py ?ct] unfolding ev by (simp add: rule)
  have 4: "resolve_values_of py model (PStr path) = Inr [(PNone, '''')]"
    if "\<not> py_contains ''[]'' path" "py_split CHR ''.'' path = seg # rest"
      "map_of [(''geometry'', geometry model), (''plan'', plan model),
               (''flow'', flow model), (''project'', project model)] seg = Some PNone"
    for seg rest
    using that(1) getattr_path_absent [OF that(2) that(3), of py]
    by (simp add: resolve_values_def)
  have 5: "resolve_values_of py model (PStr path) = Inr []"
    if "py_contains ''[]'' path" "py_partition ''[]'' path = (cp, sep, fp)"
      "py_split CHR ''.'' (py_rstrip_char CHR ''.'' cp) = seg # rest"
      "map_of [(''geometry'', geometry model), (''plan'', plan model),
               (''flow'', flow model), (''project'', project model)] seg = Some PNone"
    for cp sep fp seg rest
    using that(1) that(2) getattr_path_absent [OF that(3) that(4), of py]
    by (simp add: resolve_values_def)
  from 1 2 3 4 5 show ?thesis by blast
qed

theorem evaluate_rule_absent_data_witness:
  "(\<exists>r. evaluate_rule py_sample (sample_range_rule ''error'') empty_model = Inr [r]
        \<and> status r = PStr ''SKIPPED'' \<and> message r = PStr ''Data not available'')
   \<and> (\<exists>r. evaluate_rule py_sample sample_surcharge_rule empty_model = Inr [r]
        \<and> status r = PStr ''SKIPPED'' \<and> message r = PStr ''Value is None'')
   \<and> resolve_values_of py_sample empty_model (PStr ''plan.encroachment.target_surcharge'')
       = Inr [(PNone, '''')]
   \<and> resolve_values_of py_sample empty_model
         (PStr ''geometry.cross_sections[].manning_n_channel'') = Inr []"
proof -
  have a: "\<exists>r. evaluate_rule py_sample (sample_range_rule ''error'') empty_model = Inr [r]
        \<and> status r = PStr ''SKIPPED'' \<and> message r = PStr ''Data not available''"
    using evaluate_rule_absent_data [where rule = "sample_range_rule ''error''"
      and d = "[(''id'', PStr ''FEMA-MANN-001''), (''name'', PStr ''Manning n''),
            (''severity'', PStr ''error''), (''citation'', PStr ''44 CFR 65.6''),
            (''check_type'', PStr ''range''),
            (''parameters'', PDict [(''min'', PFloat (Finite 0.020)),
                                    (''max'', PFloat (Finite 0.150))]),
            (''applies_to'', PStr ''geometry.cross_sections[].manning_n_channel'')]"
      and rid = "PStr ''FEMA-MANN-001''" and rname = "PStr ''Manning n''"
      and sev = "PStr ''error''" and cit = "PStr ''44 CFR 65.6''"
      and path = "''geometry.cross_sections[].manning_n_channel''"
      and py = py_sample and model = empty_model and vals = "[]", THEN conjunct1]
    by (simp add: sample_range_rule_def dict_get_def resolve_values_empty_examples)
  have "\<exists>rs. evaluate_rule py_sample sample_surcharge_rule empty_model = Inr rs
        \<and> length rs = length [(PNone, '''')]
        \<and> (\<forall>r\<in>set rs. status r = PStr ''SKIPPED'' \<and> message r = PStr ''Value is None'')"
    using evaluate_rule_absent_data [where rule = sample_surcharge_rule
      and d = "[(''id'', PStr ''FEMA-FW-001''), (''name'', PStr ''Floodway surcharge''),
            (''severity'', PStr ''error''), (''citation'', PStr ''44 CFR 60.3''),
            (''check_type'', PStr ''range''),
            (''parameters'', PDict [(''min'', PFloat (Finite 0)), (''max'', PFloat (Finite 1))]),
            (''applies_to'', PStr ''plan.encroachment.target_surcharge'')]"
      and rid = "PStr ''FEMA-FW-001''" and rname = "PStr ''Floodway surcharge''"
      and sev = "PStr ''error''" and cit = "PStr ''44 CFR 60.3''"
      and path = "''plan.encroachment.target_surcharge''"
      and py = py_sample and model = empty_model and vals = "[(PNone, '''')]",
      THEN conjunct2, THEN conjunct2, THEN conjunct1]
    by (simp add: sample_surcharge_rule_def dict_get_def resolve_values_empty_examples)
  then obtain rs where rs: "evaluate_rule py_sample sample_surcharge_rule empty_model = Inr rs"
    "length rs = 1" "\<forall>r\<in>set rs. status r = PStr ''SKIPPED'' \<and> message r = PStr ''Value is None''"
    by auto
  from rs(2) obtain r where "rs = [r]" by (cases rs) auto
  with rs have b: "\<exists>r. evaluate_rule py_sample sample_surcharge_rule empty_model = Inr [r]
        \<and> status r = PStr ''SKIPPED'' \<and> message r = PStr ''Value is None''"
    by auto
  have c: "resolve_values_of py_sample empty_model
             (PStr ''plan.encroachment.target_surcharge'') = Inr [(PNone, '''')]"
    using evaluate_rule_absent_data [where rule = sample_surcharge_rule
      and d = "[(''id'', PStr ''FEMA-FW-001''), (''name'', PStr ''Floodway surcharge''),
            (''severity'', PStr ''error''), (''citation'', PStr ''44 CFR 60.3''),
            (''check_type'', PStr ''range''),
            (''parameters'', PDict [(''min'', PFloat (Finite 0)), (''max'', PFloat (Finite 1))]),
            (''applies_to'', PStr ''plan.encroachment.target_surcharge'')]"
      and rid = "PStr ''FEMA-FW-001''" and rname = "PStr ''Floodway surcharge''"
      and sev = "PStr ''error''" and cit = "PStr ''44 CFR 60.3''"
      and path = "''plan.encroachment.target_surcharge''"
      and py = py_sample and model = empty_model and vals = "[(PNone, '''')]",
      THEN conjunct2, THEN conjunct2, THEN conjunct2, THEN conjunct1,
      THEN spec [of _ "''plan''"], THEN spec [of _ "[''encroachment'', ''target_surcharge'']"]]
    by (simp add: sample_surcharge_rule_def dict_get_def resolve_values_empty_examples
        empty_model_fields)
  have d: "resolve_values_of py_sample empty_model
             (PStr ''geometry.cross_sections[].manning_n_channel'') = Inr []"
    using evaluate_rule_absent_data [where rule = "sample_range_rule ''error''"
      and d = "[(''id'', PStr ''FEMA-MANN-001''), (''name'', PStr ''Manning n''),
            (''severity'', PStr ''error''), (''citation'', PStr ''44 CFR 65.6''),
            (''check_type'', PStr ''range''),
            (''parameters'', PDict [(''min'', PFloat (Finite 0.020)),
                                    (''max'', PFloat (Finite 0.150))]),
            (''applies_to'', PStr ''geometry.cross_sections[].manning_n_channel'')]"
      and rid = "PStr ''FEMA-MANN-001''" and rname = "PStr ''Manning n''"
      and sev = "PStr ''error''" and cit = "PStr ''44 CFR 65.6''"
      and path = "''geometry.cross_sections[].manning_n_channel''"
      and py = py_sample and model = empty_model and vals = "[]",
      THEN conjunct2, THEN conjunct2, THEN conjunct2, THEN conjunct2,
      THEN spec [of _ "''geometry.cross_sections''"], THEN spec [of _ "''[]''"],
      THEN spec [of _ "''.manning_n_channel''"], THEN spec [of _ "''geometry''"],
      THEN spec [of _ "[''cross_sections'']"]]
    by (simp add: sample_range_rule_def dict_get_def resolve_values_empty_examples
        empty_model_fields py_rstrip_char_def)
  from a b c d show ?thesis by blast
qed


subsection \<open>The overbank field\<close>

lemma resolve_values_collection:
  assumes "py_contains ''[]'' path" "py_partition ''[]'' path = (cp, sep, fp)"
    "py_iter (getattr_path py (ModelData_obj m) (py_rstrip_char CHR ''.'' cp)) = Some items"
  shows "resolve_values py m path
         = concat (map (resolve_item py (py_lstrip_char CHR ''.'' fp)) items)"
  using assms by (simp add: resolve_values_def)

lemma length_concat_const:
  "\<forall>x\<in>set xs. length (f x) = n \<Longrightarrow> length (concat (map f xs)) = n * length xs"
  by (induction xs) auto

text \<open>
  C4 (as amended). For every collection path whose field segment is
  "manning_n_overbank" and every element of the resolved container, the resolver produces
  the element's left-overbank value tagged "LOB" when that value is not \<open>None\<close>, then its
  right-overbank value tagged "ROB" when that value is not \<open>None\<close>; the tag is appended to
  the element's "RS" label, or stands alone when the element has no station. An element
  with both values gives two pairs, so a container whose elements all have both gives
  twice as many pairs as elements (6 for 3 cross-sections).
\<close>

theorem resolve_values_overbank:
  assumes "py_contains ''[]'' path" "py_partition ''[]'' path = (cp, sep, fp)"
    and "py_lstrip_char CHR ''.'' fp = ''manning_n_overbank''"
    and "py_iter (getattr_path py (ModelData_obj m) (py_rstrip_char CHR ''.'' cp)) = Some items"
  shows "resolve_values py m path
         = concat (map (\<lambda>item.
             (if py_getattr py item ''manning_n_left'' = PNone then []
              else [(py_getattr py item ''manning_n_left'',
                     if py_getattr py item ''river_station'' = PNone then ''LOB''
                     else ''RS '' @ str_of py (py_getattr py item ''river_station'') @ '' LOB'')])
             @ (if py_getattr py item ''manning_n_right'' = PNone then []
                else [(py_getattr py item ''manning_n_right'',
                       if py_getattr py item ''river_station'' = PNone then ''ROB''
                       else ''RS '' @ str_of py (py_getattr py item ''river_station'') @ '' ROB'')]))
            items)
       \<and> ((\<forall>item\<in>set items. py_getattr py item ''manning_n_left'' \<noteq> PNone
                \<and> py_getattr py item ''manning_n_right'' \<noteq> PNone)
            \<longrightarrow> length (resolve_values py m path) = 2 * length items)"
proof -
  have r: "resolve_values py m path
         = concat (map (resolve_item py ''manning_n_overbank'') items)"
    using assms by (simp add: resolve_values_collection)
  have 1: "resolve_item py ''manning_n_overbank'' =
        (\<lambda>item.
             (if py_getattr py item ''manning_n_left'' = PNone then []
              else [(py_getattr py item ''manning_n_left'',
                     if py_getattr py item ''river_station'' = PNone then ''LOB''
                     else ''RS '' @ str_of py (py_getattr py item ''river_station'') @ '' LOB'')])
             @ (if py_getattr py item ''manning_n_right'' = PNone then []
                else [(py_getattr py item ''manning_n_right'',
                       if py_getattr py item ''river_station'' = PNone then ''ROB''
                       else ''RS '' @ str_of py (py_getattr py item ''river_station'') @ '' ROB'')]))"
    by (rule ext) (simp add: resolve_item_def Let_def)
  have 2: "length (resolve_values py m path) = 2 * length items"
    if "\<forall>item\<in>set items. py_getattr py item ''manning_n_left'' \<noteq> PNone
                \<and> py_getattr py item ''manning_n_right'' \<noteq> PNone"
    unfolding r using that
    by (intro length_concat_const) (simp add: resolve_item_def Let_def)
  show ?thesis using 2 by (simp add: r 1)
qed

lemma overbank_path:
  "py_contains ''[]'' ''geometry.cross_sections[].manning_n_overbank''"
  "py_partition ''[]'' ''geometry.cross_sections[].manning_n_overbank''
   = (''geometry.cross_sections'', ''[]'', ''.manning_n_overbank'')"
  "py_lstrip_char CHR ''.'' ''.manning_n_overbank'' = ''manning_n_overbank''"
  "py_rstrip_char CHR ''.'' ''geometry.cross_sections'' = ''geometry.cross_sections''"
  by (simp_all add: py_lstrip_char_def py_rstrip_char_def)

lemma cross_sections_of_geometry:
  "geometry m = GeometryFile_obj g
   \<Longrightarrow> getattr_path py (ModelData_obj m) ''geometry.cross_sections''
       = PList (map CrossSection_obj (cross_sections g))"
  by (simp add: getattr_path_def ModelData_obj_def GeometryFile_obj_def dict_get_def)

lemma resolve_item_overbank_section:
  "resolve_item py ''manning_n_overbank'' (CrossSection_obj xs)
   = (if manning_regions xs = [] then []
      else [(PFloat (n_value (hd (manning_regions xs))),
             ''RS '' @ str_of py (PFloat (river_station xs)) @ '' LOB''),
            (PFloat (n_value (last (manning_regions xs))),
             ''RS '' @ str_of py (PFloat (river_station xs)) @ '' ROB'')])"
  by (simp add: resolve_item_def CrossSection_obj_def dict_get_def manning_n_left_def
      manning_n_right_def Let_def split: list.splits)

lemma resolve_overbank_geometry:
  assumes "geometry m = GeometryFile_obj g"
  shows "resolve_values py m ''geometry.cross_sections[].manning_n_overbank''
         = concat (map (\<lambda>xs.
              if manning_regions xs = [] then []
              else [(PFloat (n_value (hd (manning_regions xs))),
                     ''RS '' @ str_of py (PFloat (river_station xs)) @ '' LOB''),
                    (PFloat (n_value (last (manning_regions xs))),
                     ''RS '' @ str_of py (PFloat (river_station xs)) @ '' ROB'')])
             (cross_sections g))"
proof -
  have "py_iter (getattr_path py (ModelData_obj m)
                   (py_rstrip_char CHR ''.'' ''geometry.cross_sections''))
        = Some (map CrossSection_obj (cross_sections g))"
    by (simp add: overbank_path cross_sections_of_geometry [OF assms])
  from resolve_values_collection [OF overbank_path(1) overbank_path(2) this]
  show ?thesis
    by (simp add: overbank_path(3) map_map comp_def resolve_item_overbank_section
        del: map_eq_conv)
qed

theorem resolve_values_overbank_witness:
  "length (resolve_values py_sample
             (geometry_model [xs_sample 5000 three_regions, xs_sample 4000 three_regions,
                              xs_sample 3000 three_regions])
             ''geometry.cross_sections[].manning_n_overbank'') = 6"
  using resolve_values_overbank [where path = "''geometry.cross_sections[].manning_n_overbank''"
      and cp = "''geometry.cross_sections''" and sep = "''[]''" and fp = "''.manning_n_overbank''"
      and m = "geometry_model [xs_sample 5000 three_regions, xs_sample 4000 three_regions,
                              xs_sample 3000 three_regions]"
      and items = "map CrossSection_obj [xs_sample 5000 three_regions,
                     xs_sample 4000 three_regions, xs_sample 3000 three_regions]"
      and py = py_sample, THEN conjunct2]
  by (simp add: overbank_path
      cross_sections_of_geometry [where g = "\<lparr> title = ''Test'', cross_sections =
        [xs_sample 5000 three_regions, xs_sample 4000 three_regions,
         xs_sample 3000 three_regions], bridges = [] \<rparr>"]
      geometry_model_def CrossSection_obj_def dict_get_def manning_n_left_def
      manning_n_right_def xs_sample_def three_regions_def)

text \<open>
  C4 as stated fails on cross-sections without Manning regions: their
  \<^verbatim>\<open>manning_n_left\<close> and \<^verbatim>\<open>manning_n_right\<close> are \<^verbatim>\<open>None\<close>, and three of them give no
  pair at all.
\<close>

theorem resolve_values_overbank_counterexample:
  "resolve_values py_sample
     (geometry_model [xs_sample 5000 [], xs_sample 4000 [], xs_sample 3000 []])
     ''geometry.cross_sections[].manning_n_overbank'' = []"
  by (simp add: resolve_overbank_geometry [where g = "\<lparr> title = ''Test'', cross_sections =
        [xs_sample 5000 [], xs_sample 4000 [], xs_sample 3000 []], bridges = [] \<rparr>"]
      geometry_model_def xs_sample_def)

text \<open>
  Through the engine: a range rule on the overbank field gives six results on three
  cross-sections with Manning regions, and the single "Data not available" result on
  three without.
\<close>

lemma overbank_three_sections_six_results:
  "map_sum id (map status)
     (evaluate_rule py_sample sample_overbank_rule
        (geometry_model [xs_sample 5000 three_regions, xs_sample 4000 three_regions,
                         xs_sample 3000 three_regions]))
   = Inr [PStr ''PASS'', PStr ''PASS'', PStr ''PASS'', PStr ''PASS'', PStr ''PASS'',
          PStr ''PASS'']"
  by (simp add: evaluate_rule_def sample_overbank_rule_def exc_bind_def dict_get_def
      resolve_overbank_geometry [where g = "\<lparr> title = ''Test'', cross_sections =
        [xs_sample 5000 three_regions, xs_sample 4000 three_regions,
         xs_sample 3000 three_regions], bridges = [] \<rparr>"]
      geometry_model_def xs_sample_def three_regions_def check_value_def check_range_def
      dict_item_def)

lemma overbank_no_regions_one_result:
  "map_sum id (map message)
     (evaluate_rule py_sample sample_overbank_rule
        (geometry_model [xs_sample 5000 [], xs_sample 4000 [], xs_sample 3000 []]))
   = Inr [PStr ''Data not available'']"
  by (simp add: evaluate_rule_def sample_overbank_rule_def exc_bind_def dict_get_def
      resolve_overbank_geometry [where g = "\<lparr> title = ''Test'', cross_sections =
        [xs_sample 5000 [], xs_sample 4000 [], xs_sample 3000 []], bridges = [] \<rparr>"]
      geometry_model_def xs_sample_def skipped_def dict_item_def)


subsection \<open>The profile-existence handler\<close>

lemma join_strs_strings: "join_strs sep (map PStr ss) = Inr (join_with sep ss)"
  by (induction sep ss rule: join_with.induct) (auto simp add: exc_bind_def)

lemma lower_each_strings: "lower_each py (map PStr ss) = Inr (map (str_lower py) ss)"
  by (induction ss) (auto simp add: exc_bind_def)

lemma any_match_strings:
  "any_match py acc (map PStr ns) = Inr (\<exists>n\<in>set ns. str_lower py (str_strip py n) \<in> set acc)"
  by (induction ns) auto

lemma make_result_dict:
  assumes "map_of d ''id'' = Some rid" "map_of d ''name'' = Some rname"
    "map_of d ''severity'' = Some sev" "map_of d ''citation'' = Some cit"
  shows "make_result (PDict d) st actual expected msg =
     Inr [(''rule_id'', rid), (''rule_name'', rname), (''status'', PStr st),
          (''severity'', sev), (''actual_value'', PStr actual),
          (''expected_value'', PStr expected), (''citation'', cit),
          (''message'', PStr msg)]"
  using assms by (simp add: make_result_def exc_bind_def dict_item_def)

lemma check_profile_exists_names:
  assumes keys: "map_of d ''id'' = Some rid" "map_of d ''name'' = Some rname"
      "map_of d ''severity'' = Some sev" "map_of d ''citation'' = Some cit"
    and params: "map_of d ''parameters'' = Some (PDict ps)"
      "map_of ps ''accepted_names'' = Some (PList (map PStr accepted))"
    and fl: "flow model \<noteq> PNone"
      "py_attr py (flow model) ''profile_names'' = Inr (PList (map PStr ns))"
  shows "check_profile_exists py (PDict d) model =
     (if ns = []
      then Inr [[(''rule_id'', rid), (''rule_name'', rname), (''status'', PStr ''SKIPPED''),
                 (''severity'', sev), (''actual_value'', PStr ''no profiles''),
                 (''expected_value'', PStr (join_with '', '' accepted)), (''citation'', cit),
                 (''message'', PStr ''Flow file contains no profiles.'')]]
      else if \<exists>n\<in>set ns. \<exists>a\<in>set accepted. str_lower py (str_strip py n) = str_lower py a
      then Inr [[(''rule_id'', rid), (''rule_name'', rname), (''status'', PStr ''PASS''),
                 (''severity'', sev), (''actual_value'', PStr (join_with '', '' ns)),
                 (''expected_value'', PStr (''one of: '' @ join_with '', '' accepted)),
                 (''citation'', cit),
                 (''message'', PStr (''Required profile found in: '' @ join_with '', '' ns
                                     @ ''.''))]]
      else Inr [[(''rule_id'', rid), (''rule_name'', rname), (''status'', PStr ''FAIL''),
                 (''severity'', sev), (''actual_value'', PStr (join_with '', '' ns)),
                 (''expected_value'', PStr (''one of: '' @ join_with '', '' accepted)),
                 (''citation'', cit),
                 (''message'', PStr (''No profile matching the required event was found. ''
                                     @ ''Profiles present: '' @ join_with '', '' ns @ ''.''))]])"
proof -
  have m: "(\<exists>n\<in>set ns. str_lower py (str_strip py n) \<in> str_lower py ` set accepted)
           = (\<exists>n\<in>set ns. \<exists>a\<in>set accepted. str_lower py (str_strip py n) = str_lower py a)"
    by auto
  show ?thesis
    by (simp add: check_profile_exists_def make_result_dict [OF keys] exc_bind_def fl
        dict_item_def dict_get_def keys params lower_all_def lower_each_strings py_join_def
        join_strs_strings any_match_strings m)
qed

text \<open>
  C5 (as amended). For a rule that carries its identifier, name, severity, citation and
  a list of accepted names, the profile-existence handler returns one result: SKIPPED
  when no flow file is loaded, SKIPPED when the flow file has no profile, and otherwise
  PASS exactly when \<^verbatim>\<open>lower\<close> of \<^verbatim>\<open>strip\<close> of some profile name equals \<^verbatim>\<open>lower\<close> of
  some accepted name (the accepted names are not stripped), else FAIL; in both of the
  last cases the actual value lists all profile names, joined by ", ".
\<close>

theorem check_profile_exists_status:
  assumes rule: "rule = PDict d"
    and keys: "map_of d ''id'' = Some rid" "map_of d ''name'' = Some rname"
      "map_of d ''severity'' = Some sev" "map_of d ''citation'' = Some cit"
    and params: "map_of d ''parameters'' = Some (PDict ps)"
      "map_of ps ''accepted_names'' = Some (PList (map PStr accepted))"
  shows "(flow model = PNone \<longrightarrow>
            (\<exists>r. check_profile_exists py rule model = Inr [r]
                 \<and> map_of r ''status'' = Some (PStr ''SKIPPED'')))
       \<and> (flow model = FlowFile_obj f \<and> profiles f = [] \<longrightarrow>
            (\<exists>r. check_profile_exists py rule model = Inr [r]
                 \<and> map_of r ''status'' = Some (PStr ''SKIPPED'')))
       \<and> (flow model = FlowFile_obj f \<and> profiles f \<noteq> [] \<longrightarrow>
            (\<exists>r. check_profile_exists py rule model = Inr [r]
                 \<and> map_of r ''status'' =
                     Some (PStr (if \<exists>p\<in>set (profiles f). \<exists>a\<in>set accepted.
                                      str_lower py (str_strip py (name p)) = str_lower py a
                                 then ''PASS'' else ''FAIL''))
                 \<and> map_of r ''actual_value'' =
                     Some (PStr (join_with '', '' (map name (profiles f))))))"
proof -
  have 1: "\<exists>r. check_profile_exists py rule model = Inr [r]
                 \<and> map_of r ''status'' = Some (PStr ''SKIPPED'')" if "flow model = PNone"
    using that by (simp add: check_profile_exists_def rule make_result_dict [OF keys] exc_bind_def)
  have pn: "py_attr py (FlowFile_obj f) ''profile_names'' = Inr (PList (map PStr (map name (profiles f))))"
    by (simp add: FlowFile_obj_def profile_names_def comp_def)
  have nn: "FlowFile_obj f \<noteq> PNone" by (simp add: FlowFile_obj_def)
  have c: "check_profile_exists py rule model = (if map name (profiles f) = []
      then Inr [[(''rule_id'', rid), (''rule_name'', rname), (''status'', PStr ''SKIPPED''),
                 (''severity'', sev), (''actual_value'', PStr ''no profiles''),
                 (''expected_value'', PStr (join_with '', '' accepted)), (''citation'', cit),
                 (''message'', PStr ''Flow file contains no profiles.'')]]
      else if \<exists>n\<in>set (map name (profiles f)). \<exists>a\<in>set accepted. str_lower py (str_strip py n) = str_lower py a
      then Inr [[(''rule_id'', rid), (''rule_name'', rname), (''status'', PStr ''PASS''),
                 (''severity'', sev), (''actual_value'', PStr (join_with '', '' (map name (profiles f)))),
                 (''expected_value'', PStr (''one of: '' @ join_with '', '' accepted)),
                 (''citation'', cit),
                 (''message'', PStr (''Required profile found in: '' @ join_with '', '' (map name (profiles f))
                                     @ ''.''))]]
      else Inr [[(''rule_id'', rid), (''rule_name'', rname), (''status'', PStr ''FAIL''),
                 (''severity'', sev), (''actual_value'', PStr (join_with '', '' (map name (profiles f)))),
                 (''expected_value'', PStr (''one of: '' @ join_with '', '' accepted)),
                 (''citation'', cit),
                 (''message'', PStr (''No profile matching the required event was found. ''
                                     @ ''Profiles present: '' @ join_with '', '' (map name (profiles f)) @ ''.''))]])"
    if "flow model = FlowFile_obj f"
    unfolding rule
    by (rule check_profile_exists_names [OF keys params]) (simp_all add: that nn pn)
  have 2: "\<exists>r. check_profile_exists py rule model = Inr [r]
                 \<and> map_of r ''status'' = Some (PStr ''SKIPPED'')"
    if "flow model = FlowFile_obj f" "profiles f = []"
    using that by (simp add: c)
  have 3: "\<exists>r. check_profile_exists py rule model = Inr [r]
                 \<and> map_of r ''status'' =
                     Some (PStr (if \<exists>p\<in>set (profiles f). \<exists>a\<in>set accepted.
                                      str_lower py (str_strip py (name p)) = str_lower py a
                                 then ''PASS'' else ''FAIL''))
                 \<and> map_of r ''actual_value'' =
                     Some (PStr (join_with '', '' (map name (profiles f))))"
    if "flow model = FlowFile_obj f" "profiles f \<noteq> []"
    using that by (simp add: c)
  from 1 2 3 show ?thesis by blast
qed

text \<open>
  C5 as stated fails where an accepted name has surrounding whitespace: the ASCII
  accepted name "100yr " and the profile "100yr" are equal after trimming and
  lower-casing both sides, and the handler returns FAIL.
\<close>

theorem check_profile_exists_counterexample:
  "check_profile_exists py_sample (sample_profile_rule [''100yr '']) (flow_model (flow_sample [''100yr'']))
   = Inr [[(''rule_id'', PStr ''FEMA-EVENT-001''), (''rule_name'', PStr ''Base flood profile''),
           (''status'', PStr ''FAIL''), (''severity'', PStr ''error''),
           (''actual_value'', PStr ''100yr''), (''expected_value'', PStr ''one of: 100yr ''),
           (''citation'', PStr ''44 CFR 60.3''),
           (''message'', PStr ''No profile matching the required event was found. Profiles present: 100yr.'')]]
   \<and> ascii_lower (ascii_strip ''100yr'') = ascii_lower (ascii_strip ''100yr '')"
  by (simp add: check_profile_exists_def sample_profile_rule_def flow_model_def flow_sample_def
      FlowFile_obj_def profile_names_def exc_bind_def dict_item_def dict_get_def lower_all_def
      py_join_def make_result_def ascii_lower_def ascii_strip_def is_space_def lower_char_def)

theorem check_profile_exists_status_witness:
  "(\<exists>r. check_profile_exists py_sample (sample_profile_rule [''100yr'', ''1% annual chance'', ''base flood''])
          (flow_model (flow_sample [''10yr'', ''50yr''])) = Inr [r]
        \<and> map_of r ''status'' = Some (PStr ''FAIL'')
        \<and> map_of r ''actual_value'' = Some (PStr ''10yr, 50yr''))
   \<and> (\<exists>r. check_profile_exists py_sample (sample_profile_rule [''100yr'', ''1% annual chance'', ''base flood''])
          (flow_model (flow_sample ['' 100YR ''])) = Inr [r]
        \<and> map_of r ''status'' = Some (PStr ''PASS'')
        \<and> map_of r ''actual_value'' = Some (PStr '' 100YR ''))
   \<and> (\<exists>r. check_profile_exists py_sample (sample_profile_rule [''100yr'', ''1% annual chance'', ''base flood''])
          empty_model = Inr [r]
        \<and> map_of r ''status'' = Some (PStr ''SKIPPED''))"
proof -
  note defs = sample_profile_rule_def flow_model_def flow_sample_def empty_model_def
      ascii_lower_def ascii_strip_def is_space_def lower_char_def char_of_eq
  have a: "\<exists>r. check_profile_exists py_sample (sample_profile_rule [''100yr'', ''1% annual chance'', ''base flood''])
          (flow_model (flow_sample [''10yr'', ''50yr''])) = Inr [r]
        \<and> map_of r ''status'' = Some (PStr ''FAIL'')
        \<and> map_of r ''actual_value'' = Some (PStr ''10yr, 50yr'')"
    using check_profile_exists_status [where
      rule = "sample_profile_rule [''100yr'', ''1% annual chance'', ''base flood'']"
      and d = "[(''id'', PStr ''FEMA-EVENT-001''), (''name'', PStr ''Base flood profile''),
            (''severity'', PStr ''error''), (''citation'', PStr ''44 CFR 60.3''),
            (''check_type'', PStr ''custom''),
            (''parameters'', PDict [(''handler'', PStr ''check_100yr_profile_exists''),
               (''accepted_names'',
                PList (map PStr [''100yr'', ''1% annual chance'', ''base flood'']))])]"
      and rid = "PStr ''FEMA-EVENT-001''" and rname = "PStr ''Base flood profile''"
      and sev = "PStr ''error''" and cit = "PStr ''44 CFR 60.3''"
      and ps = "[(''handler'', PStr ''check_100yr_profile_exists''),
               (''accepted_names'',
                PList (map PStr [''100yr'', ''1% annual chance'', ''base flood'']))]"
      and accepted = "[''100yr'', ''1% annual chance'', ''base flood'']" and py = py_sample
      and model = "flow_model (flow_sample [''10yr'', ''50yr''])"
      and f = "flow_sample [''10yr'', ''50yr'']", THEN conjunct2, THEN conjunct2]
    by (simp add: defs)
  have b: "\<exists>r. check_profile_exists py_sample (sample_profile_rule [''100yr'', ''1% annual chance'', ''base flood''])
          (flow_model (flow_sample ['' 100YR ''])) = Inr [r]
        \<and> map_of r ''status'' = Some (PStr ''PASS'')
        \<and> map_of r ''actual_value'' = Some (PStr '' 100YR '')"
    using check_profile_exists_status [where
      rule = "sample_profile_rule [''100yr'', ''1% annual chance'', ''base flood'']"
      and d = "[(''id'', PStr ''FEMA-EVENT-001''), (''name'', PStr ''Base flood profile''),
            (''severity'', PStr ''error''), (''citation'', PStr ''44 CFR 60.3''),
            (''check_type'', PStr ''custom''),
            (''parameters'', PDict [(''handler'', PStr ''check_100yr_profile_exists''),
               (''accepted_names'',
                PList (map PStr [''100yr'', ''1% annual chance'', ''base flood'']))])]"
      and rid = "PStr ''FEMA-EVENT-001''" and rname = "PStr ''Base flood profile''"
      and sev = "PStr ''error''" and cit = "PStr ''44 CFR 60.3''"
      and ps = "[(''handler'', PStr ''check_100yr_profile_exists''),
               (''accepted_names'',
                PList (map PStr [''100yr'', ''1% annual chance'', ''base flood'']))]"
      and accepted = "[''100yr'', ''1% annual chance'', ''base flood'']" and py = py_sample
      and model = "flow_model (flow_sample ['' 100YR ''])"
      and f = "flow_sample ['' 100YR '']", THEN conjunct2, THEN conjunct2]
    by (simp add: defs)
  have c: "\<exists>r. check_profile_exists py_sample (sample_profile_rule [''100yr'', ''1% annual chance'', ''base flood''])
          empty_model = Inr [r]
        \<and> map_of r ''status'' = Some (PStr ''SKIPPED'')"
    using check_profile_exists_status [where
      rule = "sample_profile_rule [''100yr'', ''1% annual chance'', ''base flood'']"
      and d = "[(''id'', PStr ''FEMA-EVENT-001''), (''name'', PStr ''Base flood profile''),
            (''severity'', PStr ''error''), (''citation'', PStr ''44 CFR 60.3''),
            (''check_type'', PStr ''custom''),
            (''parameters'', PDict [(''handler'', PStr ''check_100yr_profile_exists''),
               (''accepted_names'',
                PList (map PStr [''100yr'', ''1% annual chance'', ''base flood'']))])]"
      and rid = "PStr ''FEMA-EVENT-001''" and rname = "PStr ''Base flood profile''"
      and sev = "PStr ''error''" and cit = "PStr ''44 CFR 60.3''"
      and ps = "[(''handler'', PStr ''check_100yr_profile_exists''),
               (''accepted_names'',
                PList (map PStr [''100yr'', ''1% annual chance'', ''base flood'']))]"
      and accepted = "[''100yr'', ''1% annual chance'', ''base flood'']" and py = py_sample
      and model = empty_model, THEN conjunct1]
    by (simp add: defs)
  from a b c show ?thesis by (intro conjI)
qed


subsection \<open>Rule loading\<close>

lemma list_ex_py_eq_str:
  "list_ex (py_eq (PStr i)) (map PStr sups) = (i \<in> set sups)"
  by (induction sups) auto

lemma drop_superseded_strings:
  assumes "\<forall>r\<in>set base. \<exists>d i. r = PDict d \<and> map_of d ''id'' = Some (PStr i)"
  shows "drop_superseded (map PStr sups) base
         = Inr (filter (\<lambda>r. \<forall>i\<in>set sups. py_item r ''id'' \<noteq> Inr (PStr i)) base)"
  using assms
proof (induction base)
  case Nil
  then show ?case by simp
next
  case (Cons r base)
  then obtain d i where r: "r = PDict d" "map_of d ''id'' = Some (PStr i)" by auto
  from Cons have IH: "drop_superseded (map PStr sups) base
         = Inr (filter (\<lambda>r. \<forall>i\<in>set sups. py_item r ''id'' \<noteq> Inr (PStr i)) base)"
    by simp
  show ?case
    by (auto simp add: r IH exc_bind_def dict_item_def list_ex_py_eq_str)
qed

lemma hashable_strings: "list_all hashable (map PStr sups)"
  by (induction sups) auto

text \<open>
  C3. For a baseline file whose rules all carry a string identifier and an overlay key
  \<open>state\<close>: when the overlay file exists, with a list of superseded identifiers and a
  list of rules, \<^verbatim>\<open>load_rules\<close> returns the baseline rules whose identifier is not
  superseded, in their original order, followed by the overlay's rules; when no overlay
  file exists for the key it returns the baseline list unchanged, as it does without a
  key.
\<close>

theorem load_rules_overlay:
  assumes base: "fs FEMA_RULES = YamlDoc (PDict fd)" "map_of fd ''rules'' = Some (PList base)"
    and ids: "\<forall>r\<in>set base. \<exists>d i. r = PDict d \<and> map_of d ''id'' = Some (PStr i)"
    and key: "state \<noteq> []"
  shows "(fs (STATES_DIR @ ''/'' @ str_lower py state @ ''.yaml'') = YamlDoc (PDict sd)
            \<and> map_of sd ''supersedes'' = Some (PList (map PStr sups))
            \<and> map_of sd ''rules'' = Some (PList extra)
          \<longrightarrow> load_rules py fs (Some state) None None
              = Inr (filter (\<lambda>r. \<forall>i\<in>set sups. py_item r ''id'' \<noteq> Inr (PStr i)) base @ extra))
       \<and> (fs (STATES_DIR @ ''/'' @ str_lower py state @ ''.yaml'') = NoFile
          \<longrightarrow> load_rules py fs (Some state) None None = Inr base)
       \<and> load_rules py fs None None None = Inr base"
proof -
  have 1: "load_rules py fs (Some state) None None
              = Inr (filter (\<lambda>r. \<forall>i\<in>set sups. py_item r ''id'' \<noteq> Inr (PStr i)) base @ extra)"
    if "fs (STATES_DIR @ ''/'' @ str_lower py state @ ''.yaml'') = YamlDoc (PDict sd)"
      "map_of sd ''supersedes'' = Some (PList (map PStr sups))"
      "map_of sd ''rules'' = Some (PList extra)"
  proof (cases "sups = []")
    case True
    then show ?thesis
      using that
      by (simp add: load_rules_def read_yaml_def base key exc_bind_def dict_get_def py_list_def
          py_set_def or_empty_def)
  next
    case False
    then show ?thesis
      using that
      by (simp add: load_rules_def read_yaml_def base key exc_bind_def dict_get_def py_list_def
          py_set_def or_empty_def hashable_strings drop_superseded_strings [OF ids])
  qed
  have 2: "load_rules py fs (Some state) None None = Inr base"
    if "fs (STATES_DIR @ ''/'' @ str_lower py state @ ''.yaml'') = NoFile"
    using that
    by (simp add: load_rules_def read_yaml_def base key exc_bind_def dict_get_def py_list_def)
  have 3: "load_rules py fs None None None = Inr base"
    by (simp add: load_rules_def read_yaml_def base exc_bind_def dict_get_def py_list_def)
  from 1 2 3 show ?thesis by blast
qed

lemma lower_texas: "ascii_lower ''Texas'' = ''texas''" "ascii_lower ''atlantis'' = ''atlantis''"
  by (simp_all add: ascii_lower_def lower_char_def char_of_eq)

theorem load_rules_overlay_witness:
  "load_rules py_sample sample_fs (Some ''Texas'') None None
     = Inr [sample_range_rule ''error'', sample_texas_rule]
   \<and> load_rules py_sample sample_fs (Some ''atlantis'') None None
     = Inr [sample_surcharge_rule, sample_range_rule ''error'']"
proof -
  have ids: "\<forall>r\<in>set [sample_surcharge_rule, sample_range_rule ''error''].
               \<exists>d i. r = PDict d \<and> map_of d ''id'' = Some (PStr i)"
    by (simp add: sample_surcharge_rule_def sample_range_rule_def)
  have a: "load_rules py_sample sample_fs (Some ''Texas'') None None
     = Inr [sample_range_rule ''error'', sample_texas_rule]"
    using load_rules_overlay [where py = py_sample and fs = sample_fs
        and fd = "[(''rules'', PList [sample_surcharge_rule, sample_range_rule ''error''])]"
        and base = "[sample_surcharge_rule, sample_range_rule ''error'']"
        and state = "''Texas''"
        and sd = "[(''state'', PStr ''Texas''), (''supersedes'', PList [PStr ''FEMA-FW-001'']),
                   (''rules'', PList [sample_texas_rule])]"
        and sups = "[''FEMA-FW-001'']" and extra = "[sample_texas_rule]", OF _ _ ids,
        THEN conjunct1]
    by (simp add: sample_fs_def FEMA_RULES_def STATES_DIR_def lower_texas dict_item_def
        sample_surcharge_rule_def sample_range_rule_def)
  have b: "load_rules py_sample sample_fs (Some ''atlantis'') None None
     = Inr [sample_surcharge_rule, sample_range_rule ''error'']"
    using load_rules_overlay [where py = py_sample and fs = sample_fs
        and fd = "[(''rules'', PList [sample_surcharge_rule, sample_range_rule ''error''])]"
        and base = "[sample_surcharge_rule, sample_range_rule ''error'']"
        and state = "''atlantis''", OF _ _ ids, THEN conjunct2, THEN conjunct1]
    by (simp add: sample_fs_def FEMA_RULES_def STATES_DIR_def lower_texas)
  from a b show ?thesis by (intro conjI)
qed


subsection \<open>The evaluation loop\<close>

text \<open>
  What a rule that evaluates without raising returns: at least one result, each carrying
  the rule's identifier.
\<close>

lemma skipped_Inr:
  "skipped (PDict d) reason loc = Inr x
   \<Longrightarrow> map_of d ''id'' = Some (rule_id x) \<and> status x = PStr ''SKIPPED''"
  by (auto simp add: skipped_def exc_bind_def dict_item_def split: option.splits)

lemma check_range_Inr:
  "check_range py (PDict d) val loc = Inr x \<Longrightarrow> map_of d ''id'' = Some (rule_id x)"
  by (auto simp add: check_range_def exc_bind_def dict_item_def Let_def
      split: option.splits sum.splits if_splits)

lemma check_exact_Inr:
  "check_exact py (PDict d) val loc = Inr x \<Longrightarrow> map_of d ''id'' = Some (rule_id x)"
  by (auto simp add: check_exact_def exc_bind_def dict_item_def Let_def
      split: option.splits sum.splits if_splits)

lemma check_exists_Inr:
  "check_exists py (PDict d) val loc = Inr x \<Longrightarrow> map_of d ''id'' = Some (rule_id x)"
  by (auto simp add: check_exists_def exc_bind_def dict_item_def
      split: option.splits)

lemma check_value_Inr:
  "check_value py (PDict d) ct vl = Inr x \<Longrightarrow> map_of d ''id'' = Some (rule_id x)"
  by (auto simp add: check_value_def split: prod.splits if_splits
      dest: skipped_Inr check_range_Inr check_exact_Inr check_exists_Inr)

lemma check_values_Inr:
  "check_values py (PDict d) ct vals = Inr xs
   \<Longrightarrow> length xs = length vals \<and> (\<forall>x\<in>set xs. map_of d ''id'' = Some (rule_id x))"
proof (induction vals arbitrary: xs)
  case Nil
  then show ?case by simp
next
  case (Cons v vals)
  then show ?case
    by (auto simp add: exc_bind_def split: sum.splits dest: check_value_Inr)
qed

lemma make_result_Inr:
  "make_result (PDict d) st a e msg = Inr r
   \<Longrightarrow> \<exists>rid rname sev cit.
         map_of d ''id'' = Some rid
         \<and> r = [(''rule_id'', rid), (''rule_name'', rname), (''status'', PStr st),
                (''severity'', sev), (''actual_value'', PStr a),
                (''expected_value'', PStr e), (''citation'', cit), (''message'', PStr msg)]"
  by (auto simp add: make_result_def exc_bind_def dict_item_def split: option.splits)

lemma to_results_single:
  assumes "map_of r ''rule_id'' = Some rid" "to_results (PDict d) [r] = Inr xs"
  shows "\<exists>x. xs = [x] \<and> rule_id x = rid"
  using assms
  by (auto simp add: to_result_def exc_bind_def dict_item_def split: option.splits sum.splits)

lemma check_profile_exists_Inr:
  "check_profile_exists py (PDict d) m = Inr raw
   \<Longrightarrow> \<exists>r rid. raw = [r] \<and> map_of d ''id'' = Some rid \<and> map_of r ''rule_id'' = Some rid"
  by (auto simp add: check_profile_exists_def exc_bind_def split: sum.splits if_splits
      dest!: make_result_Inr)

lemma check_boundary_conditions_defined_Inr:
  "check_boundary_conditions_defined py (PDict d) m = Inr raw
   \<Longrightarrow> \<exists>r rid. raw = [r] \<and> map_of d ''id'' = Some rid \<and> map_of r ''rule_id'' = Some rid"
  by (auto simp add: check_boundary_conditions_defined_def exc_bind_def Let_def
      split: sum.splits if_splits dest!: make_result_Inr)

lemma flag_for_manual_review_Inr:
  "flag_for_manual_review py (PDict d) m = Inr raw
   \<Longrightarrow> \<exists>r rid. raw = [r] \<and> map_of d ''id'' = Some rid \<and> map_of r ''rule_id'' = Some rid"
  by (auto simp add: flag_for_manual_review_def exc_bind_def Let_def dict_item_def
      split: sum.splits option.splits)

lemma registry_handlers:
  "map_of HANDLER_REGISTRY s = Some h
   \<Longrightarrow> h = check_profile_exists \<or> h = check_boundary_conditions_defined
       \<or> h = flag_for_manual_review"
  by (auto simp add: HANDLER_REGISTRY_def split: if_splits)

lemma run_custom_Inr:
  assumes "run_custom py (PDict d) m = Inr xs"
  shows "\<exists>x. xs = [x] \<and> map_of d ''id'' = Some (rule_id x)"
proof -
  obtain hn where hn: "py_get (dict_get d ''parameters'' (PDict [])) ''handler'' (PStr '''') = Inr hn"
    using assms by (auto simp add: run_custom_def exc_bind_def split: sum.splits)
  obtain ho where ho: "registry_get hn = Inr ho"
    using assms hn by (auto simp add: run_custom_def exc_bind_def split: sum.splits)
  show ?thesis
  proof (cases ho)
    case None
    with assms hn ho show ?thesis
      by (auto simp add: run_custom_def exc_bind_def split: sum.splits dest: skipped_Inr)
  next
    case (Some h)
    with assms hn ho obtain raw where raw: "h py (PDict d) m = Inr raw"
      "to_results (PDict d) raw = Inr xs"
      by (auto simp add: run_custom_def exc_bind_def split: sum.splits)
    from ho Some obtain s where "map_of HANDLER_REGISTRY s = Some h"
      by (auto simp add: registry_get_def split: if_splits pyval.splits)
    from registry_handlers [OF this] raw(1)
    obtain r rid where r: "raw = [r]" "map_of d ''id'' = Some rid" "map_of r ''rule_id'' = Some rid"
      by (auto dest: check_profile_exists_Inr check_boundary_conditions_defined_Inr
          flag_for_manual_review_Inr)
    from to_results_single [OF r(3)] raw(2) r(1) r(2) show ?thesis by auto
  qed
qed

lemma evaluate_rule_Inr:
  assumes "evaluate_rule py (PDict d) m = Inr xs"
  shows "xs \<noteq> [] \<and> (\<forall>x\<in>set xs. map_of d ''id'' = Some (rule_id x))"
proof (cases "py_eq (dict_get d ''check_type'' (PStr '''')) (PStr ''custom'')")
  case True
  with assms have "run_custom py (PDict d) m = Inr xs"
    by (simp add: evaluate_rule_def exc_bind_def)
  from run_custom_Inr [OF this] show ?thesis by auto
next
  case False
  with assms obtain vals where
    v: "(if vals = [] then exc_bind (skipped (PDict d) ''Data not available'' '''') (\<lambda>r. Inr [r])
         else check_values py (PDict d) (dict_get d ''check_type'' (PStr '''')) vals) = Inr xs"
    by (auto simp add: evaluate_rule_def exc_bind_def split: sum.splits)
  show ?thesis
  proof (cases "vals = []")
    case True
    with v show ?thesis
      by (auto simp add: exc_bind_def split: sum.splits dest: skipped_Inr)
  next
    case False
    with v have "check_values py (PDict d) (dict_get d ''check_type'' (PStr '''')) vals = Inr xs"
      by simp
    from check_values_Inr [OF this] False show ?thesis by auto
  qed
qed

lemma evaluate_loop_acc:
  "evaluate_loop py rs m acc w
   = map_sum id (\<lambda>(res, l). (acc @ res, w @ l)) (evaluate_loop py rs m [] [])"
proof (induction rs arbitrary: acc w)
  case Nil
  then show ?case by simp
next
  case (Cons r rs)
  note IH = Cons.IH
  show ?case
  proof (cases "evaluate_rule py r m")
    case (Inr xs)
    have "evaluate_loop py (r # rs) m acc w = evaluate_loop py rs m (acc @ xs) w"
      by (simp add: Inr)
    also have "\<dots> = map_sum id (\<lambda>(res, l). ((acc @ xs) @ res, w @ l))
                       (evaluate_loop py rs m [] [])"
      by (rule IH)
    finally have lhs: "evaluate_loop py (r # rs) m acc w
        = map_sum id (\<lambda>(res, l). ((acc @ xs) @ res, w @ l)) (evaluate_loop py rs m [] [])" .
    have "evaluate_loop py (r # rs) m [] [] = evaluate_loop py rs m xs []"
      by (simp add: Inr)
    also have "\<dots> = map_sum id (\<lambda>(res, l). (xs @ res, [] @ l)) (evaluate_loop py rs m [] [])"
      by (rule IH)
    finally have rhs: "evaluate_loop py (r # rs) m [] []
        = map_sum id (\<lambda>(res, l). (xs @ res, l)) (evaluate_loop py rs m [] [])"
      by simp
    show ?thesis
      unfolding lhs rhs
      by (cases "evaluate_loop py rs m [] []") (auto split: prod.splits)
  next
    case (Inl e)
    show ?thesis
    proof (cases "py_get r ''id'' (PStr ''?'')")
      case a: (Inl e1)
      then show ?thesis by (simp add: Inl exc_bind_def)
    next
      case a: (Inr logged)
      show ?thesis
      proof (cases "internal_error_result r")
        case b: (Inl e2)
        then show ?thesis by (simp add: Inl a exc_bind_def)
      next
        case b: (Inr x)
        have "evaluate_loop py (r # rs) m acc w
              = evaluate_loop py rs m (acc @ [x]) (w @ [logged])"
          by (simp add: Inl a b exc_bind_def)
        also have "\<dots> = map_sum id (\<lambda>(res, l). ((acc @ [x]) @ res, (w @ [logged]) @ l))
                       (evaluate_loop py rs m [] [])"
          by (rule IH)
        finally have lhs: "evaluate_loop py (r # rs) m acc w
            = map_sum id (\<lambda>(res, l). ((acc @ [x]) @ res, (w @ [logged]) @ l))
                (evaluate_loop py rs m [] [])" .
        have "evaluate_loop py (r # rs) m [] []
              = evaluate_loop py rs m [x] [logged]"
          by (simp add: Inl a b exc_bind_def)
        also have "\<dots> = map_sum id (\<lambda>(res, l). ([x] @ res, [logged] @ l))
                       (evaluate_loop py rs m [] [])"
          by (rule IH)
        finally have rhs: "evaluate_loop py (r # rs) m [] []
            = map_sum id (\<lambda>(res, l). ([x] @ res, [logged] @ l))
                (evaluate_loop py rs m [] [])" .
        show ?thesis
          unfolding lhs rhs
          by (cases "evaluate_loop py rs m [] []") (auto split: prod.splits)
      qed
    qed
  qed
qed

lemma internal_error_result_dict:
  "\<exists>x. internal_error_result (PDict d) = Inr x \<and> status x = PStr ''SKIPPED''
       \<and> rule_id x = dict_get d ''id'' (PStr ''?'')
       \<and> message x = PStr ''Internal error evaluating rule.''"
  by (simp add: internal_error_result_def exc_bind_def)

lemma evaluate_loop_dict:
  "evaluate_loop py (PDict d # rest) m [] []
   = map_sum id (\<lambda>(res, l). (rule_results py m (PDict d) @ res,
                              rule_warnings py m (PDict d) @ l))
       (evaluate_loop py rest m [] [])"
proof (cases "evaluate_rule py (PDict d) m")
  case (Inr xs)
  show ?thesis
    using evaluate_loop_acc [of py rest m xs "[]"]
    by (simp add: Inr rule_results_def rule_warnings_def)
next
  case (Inl e)
  obtain x where x: "internal_error_result (PDict d) = Inr x"
    using internal_error_result_dict [of d] by auto
  show ?thesis
    using evaluate_loop_acc [of py rest m "[x]" "[dict_get d ''id'' (PStr ''?'')]"]
    by (simp add: Inl x exc_bind_def rule_results_def rule_warnings_def)
qed

lemma rule_results_dict:
  "rule_results py m (PDict d) \<noteq> []"
  "x \<in> set (rule_results py m (PDict d)) \<Longrightarrow> rule_id x = dict_get d ''id'' (PStr ''?'')"
proof -
  show "rule_results py m (PDict d) \<noteq> []"
  proof (cases "evaluate_rule py (PDict d) m")
    case (Inr xs)
    with evaluate_rule_Inr [OF Inr] show ?thesis by (simp add: rule_results_def)
  next
    case (Inl e)
    with internal_error_result_dict [of d] show ?thesis
      by (auto simp add: rule_results_def)
  qed
  show "rule_id x = dict_get d ''id'' (PStr ''?'')"
    if "x \<in> set (rule_results py m (PDict d))"
  proof (cases "evaluate_rule py (PDict d) m")
    case (Inr xs)
    with evaluate_rule_Inr [OF Inr] that show ?thesis
      by (auto simp add: rule_results_def dict_get_def)
  next
    case (Inl e)
    with internal_error_result_dict [of d] that show ?thesis
      by (auto simp add: rule_results_def)
  qed
qed

lemma rule_results_failed:
  assumes "evaluate_rule py (PDict d) m = Inl e"
  shows "\<exists>x. rule_results py m (PDict d) = [x] \<and> status x = PStr ''SKIPPED''
           \<and> rule_id x = dict_get d ''id'' (PStr ''?'')"
  using internal_error_result_dict [of d] by (auto simp add: rule_results_def assms)

lemma evaluate_loop_dicts:
  assumes "\<forall>r\<in>set rs. \<exists>d. r = PDict d"
  shows "evaluate_loop py rs m [] []
         = Inr (concat (map (rule_results py m) rs), concat (map (rule_warnings py m) rs))"
  using assms
proof (induction rs)
  case Nil
  then show ?case by simp
next
  case (Cons r rs)
  then obtain d where d: "r = PDict d" by auto
  from Cons have IH: "evaluate_loop py rs m [] []
         = Inr (concat (map (rule_results py m) rs), concat (map (rule_warnings py m) rs))"
    by simp
  show ?case
    by (simp add: d evaluate_loop_dict IH del: evaluate_loop.simps)
qed

lemma evaluate_dicts:
  assumes "\<forall>r\<in>set rs. \<exists>d. r = PDict d"
  shows "evaluate py \<lparr> rules = rs \<rparr> m w
         = Inr (concat (map (rule_results py m) rs),
                w @ concat (map (rule_warnings py m) rs))"
  using evaluate_loop_acc [of py rs m "[]" w] evaluate_loop_dicts [OF assms, of py m]
  by (simp add: evaluate_def)

lemma length_concat_nonempty:
  "\<forall>x\<in>set xs. f x \<noteq> [] \<Longrightarrow> length xs \<le> length (concat (map f xs))"
proof (induction xs)
  case Nil
  then show ?case by simp
next
  case (Cons a xs)
  then have "f a \<noteq> []" by simp
  then have "1 \<le> length (f a)" by (cases "f a") auto
  with Cons show ?case by simp
qed

text \<open>
  C2 (as amended). For every rule list whose entries are all mappings and every model:
  \<^verbatim>\<open>evaluate\<close> returns and does not raise; and when evaluating one rule raises, the
  results are those of the rules before it, then exactly one SKIPPED result carrying that
  rule's identifier, then those of the rules after it, where the results before and after
  are the ones the same run yields without the failing rule.
\<close>

theorem evaluate_isolates_failure:
  assumes dicts: "\<forall>r\<in>set (rs1 @ rule # rs2). \<exists>d. r = PDict d"
    and fails: "evaluate_rule py rule model = Inl e"
  shows "\<exists>res1 res2 x w1 w2 w3 w4.
           evaluate py \<lparr> rules = rs1 \<rparr> model w = Inr (res1, w1)
         \<and> evaluate py \<lparr> rules = rs2 \<rparr> model w = Inr (res2, w2)
         \<and> evaluate py \<lparr> rules = rs1 @ rs2 \<rparr> model w = Inr (res1 @ res2, w3)
         \<and> evaluate py \<lparr> rules = rs1 @ rule # rs2 \<rparr> model w = Inr (res1 @ x # res2, w4)
         \<and> status x = PStr ''SKIPPED''
         \<and> py_get rule ''id'' (PStr ''?'') = Inr (rule_id x)"
proof -
  from dicts obtain d where d: "rule = PDict d" by auto
  from dicts have d1: "\<forall>r\<in>set rs1. \<exists>d. r = PDict d" and d2: "\<forall>r\<in>set rs2. \<exists>d. r = PDict d"
    and d12: "\<forall>r\<in>set (rs1 @ rs2). \<exists>d. r = PDict d"
    by auto
  from rule_results_failed [of py d model e] fails
  obtain x where x: "rule_results py model rule = [x]" "status x = PStr ''SKIPPED''"
    "rule_id x = dict_get d ''id'' (PStr ''?'')"
    by (auto simp add: d)
  let ?r1 = "concat (map (rule_results py model) rs1)"
  let ?r2 = "concat (map (rule_results py model) rs2)"
  have 1: "evaluate py \<lparr> rules = rs1 \<rparr> model w
           = Inr (?r1, w @ concat (map (rule_warnings py model) rs1))"
    by (rule evaluate_dicts [OF d1])
  have 2: "evaluate py \<lparr> rules = rs2 \<rparr> model w
           = Inr (?r2, w @ concat (map (rule_warnings py model) rs2))"
    by (rule evaluate_dicts [OF d2])
  have 3: "evaluate py \<lparr> rules = rs1 @ rs2 \<rparr> model w
           = Inr (?r1 @ ?r2, w @ concat (map (rule_warnings py model) (rs1 @ rs2)))"
    using evaluate_dicts [OF d12, of py model w] by simp
  have 4: "evaluate py \<lparr> rules = rs1 @ rule # rs2 \<rparr> model w
           = Inr (?r1 @ x # ?r2,
                  w @ concat (map (rule_warnings py model) (rs1 @ rule # rs2)))"
    using evaluate_dicts [OF dicts, of py model w] by (simp add: x)
  have 5: "py_get rule ''id'' (PStr ''?'') = Inr (rule_id x)"
    by (simp add: d x)
  from 1 2 3 4 5 x(2) show ?thesis by blast
qed

text \<open>
  C7 (as amended). For every engine whose loaded rules are all mappings and every model,
  the empty one included, \<^verbatim>\<open>evaluate\<close> returns a list with at least one result for each
  loaded rule: at least as many results as rules, not empty when there is a rule, and
  for every rule a result that carries its identifier ("?" when it has none).
\<close>

theorem evaluate_result_per_rule:
  assumes dicts: "\<forall>r\<in>set (rules self). \<exists>d. r = PDict d"
  shows "\<exists>res w'. evaluate py self model w = Inr (res, w')
           \<and> length (rules self) \<le> length res
           \<and> (rules self \<noteq> [] \<longrightarrow> res \<noteq> [])
           \<and> (\<forall>r\<in>set (rules self). \<exists>x\<in>set res.
                 py_get r ''id'' (PStr ''?'') = Inr (rule_id x))"
proof -
  let ?res = "concat (map (rule_results py model) (rules self))"
  have self: "self = \<lparr> rules = rules self \<rparr>" by simp
  have 1: "evaluate py self model w
           = Inr (?res, w @ concat (map (rule_warnings py model) (rules self)))"
    using evaluate_dicts [OF dicts, of py model w] self by simp
  have ne: "\<forall>r\<in>set (rules self). rule_results py model r \<noteq> []"
    using dicts rule_results_dict(1) by auto
  then have 2: "length (rules self) \<le> length ?res"
    by (rule length_concat_nonempty)
  have 3: "rules self \<noteq> [] \<longrightarrow> ?res \<noteq> []"
  proof
    assume "rules self \<noteq> []"
    then have "0 < length (rules self)" by simp
    with 2 have "0 < length ?res" by linarith
    then show "?res \<noteq> []" by (simp del: length_concat)
  qed
  have 4: "\<exists>x\<in>set ?res. py_get r ''id'' (PStr ''?'') = Inr (rule_id x)"
    if r: "r \<in> set (rules self)" for r
  proof -
    from dicts r obtain d where d: "r = PDict d" by auto
    from rule_results_dict(1) [of py model d]
    obtain x where x: "x \<in> set (rule_results py model r)"
      by (cases "rule_results py model r") (auto simp add: d)
    with rule_results_dict(2) [of x py model d]
    have "py_get r ''id'' (PStr ''?'') = Inr (rule_id x)" by (simp add: d)
    with x r show ?thesis by auto
  qed
  from 1 2 3 4 show ?thesis by blast
qed

text \<open>
  A run of the sample engine on a geometry of one cross-section: the custom rule passes,
  the rule whose parameters are not a mapping raises in its range check and is reported
  by the \<^verbatim>\<open>except\<close> branch, the floodway rule finds no plan.
\<close>

lemma sample_broken_rule_raises:
  "evaluate_rule py_sample sample_broken_rule (geometry_model [xs_sample 5000 three_regions])
   = Inl AttributeError"
  by (simp add: evaluate_rule_def sample_broken_rule_def exc_bind_def dict_get_def
      resolve_overbank_geometry [where g = "\<lparr> title = ''Test'', cross_sections =
        [xs_sample 5000 three_regions], bridges = [] \<rparr>"]
      geometry_model_def xs_sample_def three_regions_def check_value_def check_range_def)

lemma sample_rules_dicts:
  "\<forall>r\<in>set (rules sample_engine). \<exists>d. r = PDict d"
  "\<forall>r\<in>set ([sample_review_rule ''Verify freeboard.''] @ sample_broken_rule
               # [sample_surcharge_rule]). \<exists>d. r = PDict d"
  by (simp_all add: sample_engine_def sample_review_rule_def sample_broken_rule_def
      sample_surcharge_rule_def)

theorem evaluate_isolates_failure_witness:
  "\<exists>res1 res2 x w1 w2 w3 w4.
           evaluate py_sample \<lparr> rules = [sample_review_rule ''Verify freeboard.''] \<rparr>
             (geometry_model [xs_sample 5000 three_regions]) [] = Inr (res1, w1)
         \<and> evaluate py_sample \<lparr> rules = [sample_surcharge_rule] \<rparr>
             (geometry_model [xs_sample 5000 three_regions]) [] = Inr (res2, w2)
         \<and> evaluate py_sample
             \<lparr> rules = [sample_review_rule ''Verify freeboard.''] @ [sample_surcharge_rule] \<rparr>
             (geometry_model [xs_sample 5000 three_regions]) [] = Inr (res1 @ res2, w3)
         \<and> evaluate py_sample
             \<lparr> rules = [sample_review_rule ''Verify freeboard.''] @ sample_broken_rule
                        # [sample_surcharge_rule] \<rparr>
             (geometry_model [xs_sample 5000 three_regions]) [] = Inr (res1 @ x # res2, w4)
         \<and> status x = PStr ''SKIPPED''
         \<and> py_get sample_broken_rule ''id'' (PStr ''?'') = Inr (rule_id x)"
  by (rule evaluate_isolates_failure [OF sample_rules_dicts(2) sample_broken_rule_raises])

theorem evaluate_result_per_rule_witness:
  "\<exists>res w'. evaluate py_sample sample_engine empty_model [] = Inr (res, w')
       \<and> 3 \<le> length res \<and> res \<noteq> []"
  using evaluate_result_per_rule [OF sample_rules_dicts(1), of py_sample empty_model "[]"]
  by (auto simp add: sample_engine_def)

lemma sample_run:
  "map_sum id (\<lambda>(res, l). (map status res, map message res, l))
     (evaluate py_sample sample_engine (geometry_model [xs_sample 5000 three_regions]) [])
   = Inr ([PStr ''PASS'', PStr ''SKIPPED'', PStr ''SKIPPED''],
          [PStr ''Verify freeboard.'', PStr ''Internal error evaluating rule.'',
           PStr ''Value is None''],
          [PStr ''X-BROKEN''])"
proof -
  have 1: "map_sum id (map (\<lambda>r. (status r, message r)))
         (evaluate_rule py_sample (sample_review_rule ''Verify freeboard.'')
           (geometry_model [xs_sample 5000 three_regions]))
        = Inr [(PStr ''PASS'', PStr ''Verify freeboard.'')]"
    by (simp add: evaluate_rule_def sample_review_rule_def exc_bind_def dict_get_def
        run_custom_def registry_get_def HANDLER_REGISTRY_def flag_for_manual_review_def
        dict_item_def to_result_def ascii_strip_def is_space_def)
  have 3: "map_sum id (map (\<lambda>r. (status r, message r)))
         (evaluate_rule py_sample sample_surcharge_rule
           (geometry_model [xs_sample 5000 three_regions]))
        = Inr [(PStr ''SKIPPED'', PStr ''Value is None'')]"
    by (simp add: evaluate_rule_def sample_surcharge_rule_def exc_bind_def dict_get_def
        resolve_values_def getattr_path_def ModelData_obj_def geometry_model_def
        check_value_def skipped_def dict_item_def)
  obtain r1 where r1: "evaluate_rule py_sample (sample_review_rule ''Verify freeboard.'')
           (geometry_model [xs_sample 5000 three_regions]) = Inr [r1]"
     "status r1 = PStr ''PASS''" "message r1 = PStr ''Verify freeboard.''"
    using 1 by (cases "evaluate_rule py_sample (sample_review_rule ''Verify freeboard.'')
           (geometry_model [xs_sample 5000 three_regions])") auto
  obtain r3 where r3: "evaluate_rule py_sample sample_surcharge_rule
           (geometry_model [xs_sample 5000 three_regions]) = Inr [r3]"
     "status r3 = PStr ''SKIPPED''" "message r3 = PStr ''Value is None''"
    using 3 by (cases "evaluate_rule py_sample sample_surcharge_rule
           (geometry_model [xs_sample 5000 three_regions])") auto
  show ?thesis
    by (simp add: evaluate_def sample_engine_def r1 r3 sample_broken_rule_raises exc_bind_def
        internal_error_result_def)
      (simp add: sample_broken_rule_def dict_get_def r1 r3)
qed

text \<open>
  C2 as stated fails on a rule list with an entry that is not a mapping, which
  \<^verbatim>\<open>load_rules\<close> passes on as \<^verbatim>\<open>yaml.safe_load\<close> read it: on the string entry
  \<^verbatim>\<open>rule.get\<close> raises in \<^verbatim>\<open>_evaluate_rule\<close> and again in the \<^verbatim>\<open>except\<close> branch, so
  \<^verbatim>\<open>evaluate\<close> raises, and the result of the rule before it is lost with it.
\<close>

theorem evaluate_isolates_failure_counterexample:
  "evaluate py_sample \<lparr> rules = [sample_surcharge_rule, PStr ''FEMA-MANN-001''] \<rparr>
     empty_model [] = Inl AttributeError"
  by (simp add: evaluate_def evaluate_rule_def sample_surcharge_rule_def exc_bind_def
      dict_get_def resolve_values_empty_examples check_value_def skipped_def dict_item_def)

text \<open>
  C7 as stated fails on a loaded list with an empty entry (\<^verbatim>\<open>None\<close>): the list is not
  empty and \<^verbatim>\<open>evaluate\<close> raises, returning no result at all.
\<close>

theorem evaluate_result_per_rule_counterexample:
  "evaluate py_sample \<lparr> rules = [PNone] \<rparr> empty_model [] = Inl AttributeError"
  by (simp add: evaluate_def evaluate_rule_def exc_bind_def)

end
